theory Spec2Isabelle
  imports Main "HOL-Library.Word"
begin

section \<open>JavaScript values\<close>

text \<open>
  The coercion combinators of \<^verbatim>\<open>src/structs/coercions.ts\<close> work on untyped JavaScript
  values.  A string is a sequence of 16-bit code units, as in the language.  An object is
  the list of its own enumerable properties in enumeration order; a class instance carries
  the name of its class as well.  An array is the list of its elements.  Numbers are only
  carried around by the code under study, never computed with, and are represented by
  integers.  Function values and symbols are outside this model of values.  What an
  object inherits through its prototype chain is described by a realm, below.
\<close>

type_synonym code_unit = "16 word"

type_synonym jsstring = "code_unit list"

definition js :: "string \<Rightarrow> jsstring" where
  "js s = map of_char s"

datatype jsval =
    Undefined
  | Null
  | Bool bool
  | Num int
  | Str jsstring
  | Arr "jsval list"
  | Obj "(jsstring \<times> jsval) list"
  | Inst jsstring "(jsstring \<times> jsval) list"

type_synonym props = "(jsstring \<times> jsval) list"

text \<open>The \<^verbatim>\<open>typeof\<close> operator.\<close>

fun typeof :: "jsval \<Rightarrow> string" where
  "typeof Undefined = ''undefined''"
| "typeof Null = ''object''"
| "typeof (Bool b) = ''boolean''"
| "typeof (Num n) = ''number''"
| "typeof (Str s) = ''string''"
| "typeof (Arr xs) = ''object''"
| "typeof (Obj ps) = ''object''"
| "typeof (Inst c ps) = ''object''"

text \<open>The loose comparison \<^verbatim>\<open>x == null\<close> holds of \<^verbatim>\<open>null\<close> and \<^verbatim>\<open>undefined\<close> only.\<close>

definition loosely_null :: "jsval \<Rightarrow> bool" where
  "loosely_null x = (x = Null \<or> x = Undefined)"

subsection \<open>Errors and computations\<close>

text \<open>
  A JavaScript function may throw, and it may read and change the world around it.  A
  computation therefore maps a world to an outcome and a new world; the outcome is the
  returned value or the error thrown.  The outcome \<open>InheritedAccessor\<close> is not an error of
  the language: it says that the run has read or assigned a property through an accessor
  that the object inherits, and what the getter or the setter does there is not modelled.
\<close>

datatype error = TypeError | Thrown jsval | InheritedAccessor jsstring

type_synonym ('a, 'w) comp = "'w \<Rightarrow> (error + 'a) \<times> 'w"

definition return :: "'a \<Rightarrow> ('a, 'w) comp" where
  "return a = (\<lambda>w. (Inr a, w))"

definition throw :: "error \<Rightarrow> ('a, 'w) comp" where
  "throw e = (\<lambda>w. (Inl e, w))"

definition lift :: "error + 'a \<Rightarrow> ('a, 'w) comp" where
  "lift r = (\<lambda>w. (r, w))"

definition bind :: "('a, 'w) comp \<Rightarrow> ('a \<Rightarrow> ('b, 'w) comp) \<Rightarrow> ('b, 'w) comp" where
  "bind m k = (\<lambda>w. case m w of (Inl e, w') \<Rightarrow> (Inl e, w') | (Inr a, w') \<Rightarrow> k a w')"

subsection \<open>Strings\<close>

text \<open>
  \<^verbatim>\<open>String.prototype.trim\<close> removes the white space and line terminator code units of
  the language from both ends: TAB, LF, VT, FF, CR, SPACE, NBSP, the other space
  separators of Unicode, LS, PS and the byte order mark.
\<close>

definition is_white_space :: "code_unit \<Rightarrow> bool" where
  "is_white_space c =
     (c \<in> set [0x0009, 0x000A, 0x000B, 0x000C, 0x000D, 0x0020, 0x00A0, 0x1680,
                0x2000, 0x2001, 0x2002, 0x2003, 0x2004, 0x2005, 0x2006, 0x2007,
                0x2008, 0x2009, 0x200A, 0x2028, 0x2029, 0x202F, 0x205F, 0x3000,
                0xFEFF])"

definition trim :: "jsstring \<Rightarrow> jsstring" where
  "trim s = rev (dropWhile is_white_space (rev (dropWhile is_white_space s)))"

text \<open>
  The method call \<^verbatim>\<open>x.trim()\<close>: on a string it trims; on \<^verbatim>\<open>undefined\<close> and
  \<^verbatim>\<open>null\<close> the property access throws a TypeError, and so does the call on any other
  value of this model, which has no \<^verbatim>\<open>trim\<close> method.
\<close>

definition call_trim :: "jsval \<Rightarrow> error + jsval" where
  "call_trim x = (case x of Str s \<Rightarrow> Inr (Str (trim s)) | _ \<Rightarrow> Inl TypeError)"

subsection \<open>Properties of objects\<close>

text \<open>
  An array index is a property key that is the canonical decimal numeral of a number below
  \<open>2\<^sup>3\<^sup>2 - 1\<close>.  The own property keys of an object are enumerated with the array
  indices first, in ascending order, followed by the other string keys in the order of
  their creation.
\<close>

definition is_digit :: "code_unit \<Rightarrow> bool" where
  "is_digit c = (0x30 \<le> c \<and> c \<le> 0x39)"

definition decimal :: "jsstring \<Rightarrow> nat" where
  "decimal k = foldl (\<lambda>n c. 10 * n + (unat c - 48)) 0 k"

definition array_index :: "jsstring \<Rightarrow> nat option" where
  "array_index k =
     (if k \<noteq> [] \<and> list_all is_digit k \<and> (hd k \<noteq> 0x30 \<or> length k = 1) \<and>
         decimal k < 2 ^ 32 - 1
      then Some (decimal k) else None)"

text \<open>
  The value of the own property of an ordinary object under a key, \<^verbatim>\<open>undefined\<close> when the
  object has no such property of its own.
\<close>

definition prop_get :: "props \<Rightarrow> jsstring \<Rightarrow> jsval" where
  "prop_get ps key = (case map_of ps key of Some v \<Rightarrow> v | None \<Rightarrow> Undefined)"

text \<open>
  Creating or updating an own property of an ordinary object: an existing property keeps
  its place and takes the new value, a new property is created at the place the
  enumeration order gives it.
\<close>

definition index_below :: "nat \<Rightarrow> jsstring \<times> jsval \<Rightarrow> bool" where
  "index_below i p = (case array_index (fst p) of Some j \<Rightarrow> j < i | None \<Rightarrow> False)"

definition prop_create :: "props \<Rightarrow> jsstring \<Rightarrow> jsval \<Rightarrow> props" where
  "prop_create ps key v =
     (case array_index key of
        None \<Rightarrow> ps @ [(key, v)]
      | Some i \<Rightarrow> takeWhile (index_below i) ps @ [(key, v)] @ dropWhile (index_below i) ps)"

definition assign :: "props \<Rightarrow> jsstring \<Rightarrow> jsval \<Rightarrow> props" where
  "assign ps key v =
     (if key \<in> fst ` set ps
      then map (\<lambda>p. if fst p = key then (key, v) else p) ps
      else prop_create ps key v)"

subsection \<open>Prototypes\<close>

text \<open>
  The operator \<^verbatim>\<open>in\<close> and a property read look at the object first and then along its
  prototype chain.  What the prototypes hold is not fixed by the code under study: it
  depends on the version of the language and on what the program has added.  A realm
  gives it: the properties of \<^verbatim>\<open>Object.prototype\<close>, which every object inherits, those of
  \<^verbatim>\<open>Array.prototype\<close>, which arrays inherit before them, and those of the prototype of
  each class, which its instances inherit before them.  Under a name a prototype holds a
  value (a writable data property; the built-in methods are such) or an accessor (such
  as \<^verbatim>\<open>__proto__\<close> of \<^verbatim>\<open>Object.prototype\<close>).  None of the inherited properties is
  enumerable, as is the case for the built-in ones, so \<^verbatim>\<open>for ... in\<close> over an object
  enumerates the keys of its own properties.
\<close>

datatype slot = Data jsval | Accessor

type_synonym prototype = "(jsstring \<times> slot) list"

record realm =
  object_prototype :: prototype
  array_prototype :: prototype
  class_prototypes :: "(jsstring \<times> prototype) list"

definition class_prototype :: "realm \<Rightarrow> jsstring \<Rightarrow> prototype" where
  "class_prototype R c = (case map_of (class_prototypes R) c of Some p \<Rightarrow> p | None \<Rightarrow> [])"

text \<open>
  What a value inherits, the nearest prototype first.  A primitive is read through the
  prototype of its wrapper, which a realm does not describe; the code under study reads
  the properties of objects only.
\<close>

fun inherited :: "realm \<Rightarrow> jsval \<Rightarrow> prototype" where
  "inherited R (Obj ps) = object_prototype R"
| "inherited R (Arr xs) = array_prototype R @ object_prototype R"
| "inherited R (Inst c ps) = class_prototype R c @ object_prototype R"
| "inherited R x = []"

definition is_accessor :: "prototype \<Rightarrow> jsstring \<Rightarrow> bool" where
  "is_accessor p key = (map_of p key = Some Accessor)"

text \<open>
  The own properties of a value: those of an object or a class instance, the elements and
  the \<^verbatim>\<open>length\<close> of an array, the code units and the \<^verbatim>\<open>length\<close> of a string.
\<close>

fun own_property :: "jsval \<Rightarrow> jsstring \<Rightarrow> jsval option" where
  "own_property (Obj ps) key = map_of ps key"
| "own_property (Inst c ps) key = map_of ps key"
| "own_property (Arr xs) key =
     (if key = js ''length'' then Some (Num (int (length xs)))
      else case array_index key of
             Some i \<Rightarrow> if i < length xs then Some (xs ! i) else None
           | None \<Rightarrow> None)"
| "own_property (Str s) key =
     (if key = js ''length'' then Some (Num (int (length s)))
      else case array_index key of
             Some i \<Rightarrow> if i < length s then Some (Str [s ! i]) else None
           | None \<Rightarrow> None)"
| "own_property x key = None"

text \<open>The property found under a key: the own one, or else the nearest inherited one.\<close>

definition find_property :: "realm \<Rightarrow> jsval \<Rightarrow> jsstring \<Rightarrow> slot option" where
  "find_property R x key =
     (case own_property x key of
        Some v \<Rightarrow> Some (Data v)
      | None \<Rightarrow> map_of (inherited R x) key)"

text \<open>
  The operator \<^verbatim>\<open>key in x\<close> throws a TypeError when \<^verbatim>\<open>x\<close> is not an object; on an
  object it tells whether a property is found, own or inherited.
\<close>

fun has_property :: "realm \<Rightarrow> jsval \<Rightarrow> jsstring \<Rightarrow> error + bool" where
  "has_property R (Arr xs) key = Inr (find_property R (Arr xs) key \<noteq> None)"
| "has_property R (Obj ps) key = Inr (find_property R (Obj ps) key \<noteq> None)"
| "has_property R (Inst c ps) key = Inr (find_property R (Inst c ps) key \<noteq> None)"
| "has_property R x key = Inl TypeError"

text \<open>
  The property read \<^verbatim>\<open>x[key]\<close> throws a TypeError on \<^verbatim>\<open>undefined\<close> and \<^verbatim>\<open>null\<close>.
  Otherwise it gives the value of the property found, \<^verbatim>\<open>undefined\<close> when none is found;
  a read through an inherited accessor is not followed.
\<close>

definition get_property :: "realm \<Rightarrow> jsval \<Rightarrow> jsstring \<Rightarrow> error + jsval" where
  "get_property R x key =
     (if loosely_null x then Inl TypeError
      else case find_property R x key of
             None \<Rightarrow> Inr Undefined
           | Some (Data v) \<Rightarrow> Inr v
           | Some Accessor \<Rightarrow> Inl (InheritedAccessor key))"

text \<open>
  The assignment \<^verbatim>\<open>ret[key] = v\<close> on an ordinary object \<^verbatim>\<open>ret\<close>, as the code under
  study creates them with \<^verbatim>\<open>{}\<close> and \<^verbatim>\<open>{ ...x }\<close>: its prototype is
  \<^verbatim>\<open>Object.prototype\<close>, and all its own properties are writable data properties.  The
  own property is updated if there is one; otherwise one is created, unless
  \<^verbatim>\<open>Object.prototype\<close> holds an accessor under the key, whose setter is called instead
  and is not followed.
\<close>

definition put :: "realm \<Rightarrow> props \<Rightarrow> jsstring \<Rightarrow> jsval \<Rightarrow> error + props" where
  "put R ret key v =
     (if key \<notin> fst ` set ret \<and> is_accessor (object_prototype R) key
      then Inl (InheritedAccessor key)
      else Inr (assign ret key v))"

section \<open>Structs and validation\<close>

text \<open>
  Modelled from the spec: the \<^verbatim>\<open>Struct\<close> class of \<^verbatim>\<open>src/struct\<close>, which is not among
  the sources.  A struct holds a type tag, a schema descriptor, a coercer and a validator.
  The combinators look at a schema descriptor in three ways only: its \<^verbatim>\<open>typeof\<close>,
  whether it is \<^verbatim>\<open>null\<close> or \<^verbatim>\<open>undefined\<close>, and the keys it enumerates; a non-null
  object descriptor is the list of its keys with what they hold.
\<close>

datatype 'c schema_descriptor =
    SchemaUndefined
  | SchemaNull
  | SchemaObject "(jsstring \<times> 'c) list"

fun typeof_schema :: "'c schema_descriptor \<Rightarrow> string" where
  "typeof_schema SchemaUndefined = ''undefined''"
| "typeof_schema SchemaNull = ''object''"
| "typeof_schema (SchemaObject ks) = ''object''"

fun schema_loosely_null :: "'c schema_descriptor \<Rightarrow> bool" where
  "schema_loosely_null SchemaUndefined = True"
| "schema_loosely_null SchemaNull = True"
| "schema_loosely_null (SchemaObject ks) = False"

fun schema_keys :: "'c schema_descriptor \<Rightarrow> jsstring list" where
  "schema_keys (SchemaObject ks) = map fst ks"
| "schema_keys s = []"

text \<open>
  Modelled from the spec: the failure record and the path-tracking protocol of validation
  (the validation code is not among the sources).  A validator receives the value and the
  context of the call, that is the path to the value and the branch of values from the
  root down to it.
\<close>

record failure =
  path :: "jsval list"
  value' :: jsval
  type' :: jsstring
  branch :: "jsval list"
  reason :: "jsstring option"

record check_context =
  ctx_path :: "jsval list"
  ctx_branch :: "jsval list"

record ('w, 'c) Struct =
  type :: jsstring
  schema :: "'c schema_descriptor"
  coercer :: "jsval \<Rightarrow> (jsval, 'w) comp"
  validator :: "jsval \<Rightarrow> check_context \<Rightarrow> failure option"

text \<open>
  Modelled from the spec: a failure reports the path and branch of the context it is
  created in; validation of a root value starts with the empty path and the branch holding
  the value alone; a nested check extends the path with the key and the branch with the
  value checked.
\<close>

definition fail :: "check_context \<Rightarrow> jsval \<Rightarrow> jsstring \<Rightarrow> failure" where
  "fail ctx v ty =
     \<lparr>path = ctx_path ctx, value' = v, type' = ty, branch = ctx_branch ctx, reason = None\<rparr>"

definition nested :: "check_context \<Rightarrow> jsval \<Rightarrow> jsval \<Rightarrow> check_context" where
  "nested ctx key v = \<lparr>ctx_path = ctx_path ctx @ [key], ctx_branch = ctx_branch ctx @ [v]\<rparr>"

definition validate :: "jsval \<Rightarrow> ('w, 'c) Struct \<Rightarrow> failure option" where
  "validate v struct = validator struct v \<lparr>ctx_path = [], ctx_branch = [v]\<rparr>"

text \<open>Modelled from the spec: \<^verbatim>\<open>is\<close> validates without coercing and answers yes or no.\<close>

definition is' :: "jsval \<Rightarrow> ('w, 'c) Struct \<Rightarrow> bool" where
  "is' v struct = (validate v struct = None)"

subsection \<open>Type constructors\<close>

text \<open>
  Modelled from the spec: the type constructors \<^verbatim>\<open>unknown\<close>, \<^verbatim>\<open>string\<close>,
  \<^verbatim>\<open>number\<close> and \<^verbatim>\<open>map\<close> of \<^verbatim>\<open>src/structs/types\<close>, which is not among the
  sources.  A struct built without a coercer has the identity as its coercer.  The guard
  \<^verbatim>\<open>unknown\<close> accepts every value, \<^verbatim>\<open>string\<close> the strings, \<^verbatim>\<open>number\<close> the numbers.
  A map rejects what is not an object with entries, at the context it is called in; it
  checks each key and each value in turn and stops at the first failure.
\<close>

definition unknown :: "('w, 'c) Struct" where
  "unknown =
     \<lparr>type = js ''unknown'', schema = SchemaUndefined, coercer = return,
      validator = (\<lambda>v ctx. None)\<rparr>"

definition string_struct :: "('w, 'c) Struct" where
  "string_struct =
     \<lparr>type = js ''string'', schema = SchemaUndefined, coercer = return,
      validator = (\<lambda>v ctx. if typeof v = ''string'' then None
                              else Some (fail ctx v (js ''string'')))\<rparr>"

definition number_struct :: "('w, 'c) Struct" where
  "number_struct =
     \<lparr>type = js ''number'', schema = SchemaUndefined, coercer = return,
      validator = (\<lambda>v ctx. if typeof v = ''number'' then None
                              else Some (fail ctx v (js ''number'')))\<rparr>"

fun check_entries ::
  "('w, 'c) Struct \<Rightarrow> ('w, 'c) Struct \<Rightarrow> check_context \<Rightarrow> props \<Rightarrow> failure option" where
  "check_entries K V ctx [] = None"
| "check_entries K V ctx ((k, v) # es) =
     (case validator K (Str k) (nested ctx (Str k) (Str k)) of
        Some f \<Rightarrow> Some f
      | None \<Rightarrow>
          (case validator V v (nested ctx (Str k) v) of
             Some f \<Rightarrow> Some f
           | None \<Rightarrow> check_entries K V ctx es))"

definition map_type :: "('w, 'c) Struct \<Rightarrow> ('w, 'c) Struct \<Rightarrow> jsstring" where
  "map_type K V = js ''Map<'' @ type K @ js '','' @ type V @ js ''>''"

definition map_struct ::
  "('w, 'c) Struct \<Rightarrow> ('w, 'c) Struct \<Rightarrow> ('w, ('w, 'c) Struct) Struct" where
  "map_struct K V =
     \<lparr>type = map_type K V,
      schema = SchemaObject [(js ''key'', K), (js ''value'', V)],
      coercer = return,
      validator = (\<lambda>v ctx. case v of
                      Obj ps \<Rightarrow> check_entries K V ctx ps
                    | Inst c ps \<Rightarrow> check_entries K V ctx ps
                    | _ \<Rightarrow> Some (fail ctx v (map_type K V)))\<rparr>"

text \<open>
  Modelled from the spec: \<^verbatim>\<open>isPlainObject\<close> of \<^verbatim>\<open>src/utils\<close>, which is not among the
  sources: a plain key-value record, that is not an array, not a class instance, not
  \<^verbatim>\<open>null\<close>.
\<close>

fun isPlainObject :: "jsval \<Rightarrow> bool" where
  "isPlainObject (Obj ps) = True"
| "isPlainObject x = False"

section \<open>The coercion combinators\<close>

subsection \<open>\<^verbatim>\<open>coerce\<close>\<close>

text \<open>
  Lines 16 to 32 of \<^verbatim>\<open>coercions.ts\<close>.  The new struct is the old one with its coercer
  replaced (\<^verbatim>\<open>new Struct({...struct, coercer: ...})\<close>): the new coercer asks \<^verbatim>\<open>is\<close>
  whether the value meets the condition, runs the given coercion on it if so, and hands
  the outcome to the old coercer \<^verbatim>\<open>fn\<close>; otherwise it hands the value itself to
  \<^verbatim>\<open>fn\<close>.
\<close>

definition coerce ::
  "('w, 'c) Struct \<Rightarrow> ('w, 'd) Struct \<Rightarrow> (jsval \<Rightarrow> (jsval, 'w) comp) \<Rightarrow> ('w, 'c) Struct" where
  "coerce struct condition coercer' =
     (let fn = coercer struct
      in struct\<lparr>coercer :=
           (\<lambda>value. if is' value condition then bind (coercer' value) fn else fn value)\<rparr>)"

subsection \<open>\<^verbatim>\<open>defaulted\<close>\<close>

text \<open>
  Lines 41 to 74 of \<^verbatim>\<open>coercions.ts\<close>.  The fallback is a value or a function of no
  argument; \<^verbatim>\<open>typeof fallback === 'function'\<close> tells them apart, and the function is
  called where the coercion runs.  The option \<^verbatim>\<open>strict\<close> is false when it is left out.
\<close>

datatype 'w fallback = FallbackValue jsval | FallbackFunction "(jsval, 'w) comp"

definition resolve :: "'w fallback \<Rightarrow> (jsval, 'w) comp" where
  "resolve fallback = (case fallback of FallbackFunction g \<Rightarrow> g | FallbackValue v \<Rightarrow> return v)"

text \<open>The own properties of a value that \<^verbatim>\<open>isPlainObject\<close> has accepted.\<close>

fun plain_props :: "jsval \<Rightarrow> props" where
  "plain_props (Obj ps) = ps"
| "plain_props x = []"

text \<open>
  The loop \<^verbatim>\<open>for (const key in f)\<close> of lines 60 to 65 over the keys of the fallback, on
  the copy \<^verbatim>\<open>ret\<close> and the flag \<^verbatim>\<open>changed\<close>.  The test \<^verbatim>\<open>ret[key] === undefined\<close> of
  line 61 reads \<^verbatim>\<open>ret\<close> as the language does, through \<^verbatim>\<open>Object.prototype\<close>.
\<close>

fun fill_loop ::
  "realm \<Rightarrow> jsval \<Rightarrow> jsstring list \<Rightarrow> props \<times> bool \<Rightarrow> error + props \<times> bool" where
  "fill_loop R f [] (ret, changed) = Inr (ret, changed)"
| "fill_loop R f (key # keys) (ret, changed) =
     (case get_property R (Obj ret) key of
        Inl e \<Rightarrow> Inl e
      | Inr r \<Rightarrow>
          if r = Undefined
          then (case get_property R f key of
                  Inl e \<Rightarrow> Inl e
                | Inr v \<Rightarrow>
                    (case put R ret key v of
                       Inl e \<Rightarrow> Inl e
                     | Inr ret' \<Rightarrow> fill_loop R f keys (ret', True)))
          else fill_loop R f keys (ret, changed))"

text \<open>
  The body of the coercion, lines 52 to 72, once the fallback \<^verbatim>\<open>f\<close> is resolved; \<^verbatim>\<open>ret\<close>
  starts as the copy \<^verbatim>\<open>{ ...x }\<close>.
\<close>

definition defaulted_coercion :: "realm \<Rightarrow> bool \<Rightarrow> jsval \<Rightarrow> jsval \<Rightarrow> error + jsval" where
  "defaulted_coercion R strict f x =
     (if x = Undefined then Inr f
      else if \<not> strict \<and> isPlainObject x \<and> isPlainObject f then
        (case fill_loop R f (map fst (plain_props f)) (plain_props x, False) of
           Inl e \<Rightarrow> Inl e
         | Inr (ret, changed) \<Rightarrow> if changed then Inr (Obj ret) else Inr x)
      else Inr x)"

definition defaulted ::
  "realm \<Rightarrow> ('w, 'c) Struct \<Rightarrow> 'w fallback \<Rightarrow> bool \<Rightarrow> ('w, 'c) Struct" where
  "defaulted R S fallback strict =
     coerce S (unknown :: ('w, 'c) Struct)
       (\<lambda>x. bind (resolve fallback) (\<lambda>f. lift (defaulted_coercion R strict f x)))"

subsection \<open>\<^verbatim>\<open>masked\<close>\<close>

text \<open>
  Lines 83 to 104 of \<^verbatim>\<open>coercions.ts\<close>.  The loop \<^verbatim>\<open>for (const key in struct.schema)\<close>
  of lines 95 to 99 works on the object \<^verbatim>\<open>ret\<close> under construction, which starts empty.
\<close>

fun mask_loop :: "realm \<Rightarrow> jsval \<Rightarrow> jsstring list \<Rightarrow> props \<Rightarrow> error + props" where
  "mask_loop R x [] ret = Inr ret"
| "mask_loop R x (key # keys) ret =
     (case has_property R x key of
        Inl e \<Rightarrow> Inl e
      | Inr False \<Rightarrow> mask_loop R x keys ret
      | Inr True \<Rightarrow>
          (case get_property R x key of
             Inl e \<Rightarrow> Inl e
           | Inr v \<Rightarrow>
               (case put R ret key v of
                  Inl e \<Rightarrow> Inl e
                | Inr ret' \<Rightarrow> mask_loop R x keys ret')))"

definition masked_coercion :: "realm \<Rightarrow> 'c schema_descriptor \<Rightarrow> jsval \<Rightarrow> error + jsval" where
  "masked_coercion R sch x =
     (if typeof_schema sch \<noteq> ''object'' \<or> schema_loosely_null sch \<or>
         typeof x \<noteq> ''object'' \<or> loosely_null x
      then Inr x
      else (case mask_loop R x (schema_keys sch) [] of
              Inl e \<Rightarrow> Inl e
            | Inr ret \<Rightarrow> Inr (Obj ret)))"

definition masked :: "realm \<Rightarrow> ('w, 'c) Struct \<Rightarrow> ('w, 'c) Struct" where
  "masked R struct =
     coerce struct (unknown :: ('w, 'c) Struct)
       (\<lambda>x. lift (masked_coercion R (schema struct) x))"

subsection \<open>\<^verbatim>\<open>trimmed\<close>\<close>

text \<open>Lines 113 to 115 of \<^verbatim>\<open>coercions.ts\<close>.\<close>

definition trimmed :: "('w, 'c) Struct \<Rightarrow> ('w, 'c) Struct" where
  "trimmed struct =
     coerce struct (string_struct :: ('w, 'c) Struct) (\<lambda>x. lift (call_trim x))"

section \<open>Vocabulary of the statements\<close>

text \<open>
  A realm for the examples, with some of the built-in names.  A built-in method is a
  function, which the model of values does not have; an object with the name of the
  method stands for it where the examples read it from a prototype.
\<close>

definition builtin :: "string \<Rightarrow> jsval" where
  "builtin n = Inst (js ''Function'') [(js ''name'', Str (js n))]"

definition sample_realm :: realm where
  "sample_realm =
     \<lparr>object_prototype =
        [(js ''constructor'', Data (builtin ''Object'')),
         (js ''hasOwnProperty'', Data (builtin ''hasOwnProperty'')),
         (js ''toString'', Data (builtin ''toString'')),
         (js ''valueOf'', Data (builtin ''valueOf'')),
         (js ''__proto__'', Accessor)],
      array_prototype =
        [(js ''constructor'', Data (builtin ''Array'')),
         (js ''map'', Data (builtin ''map'')),
         (js ''push'', Data (builtin ''push'')),
         (js ''toString'', Data (builtin ''toString''))],
      class_prototypes = []\<rparr>"

text \<open>
  The guard of \<^verbatim>\<open>masked\<close> on its input: \<^verbatim>\<open>typeof x === 'object'\<close> and
  \<^verbatim>\<open>x != null\<close>.
\<close>

definition is_object :: "jsval \<Rightarrow> bool" where
  "is_object x = (typeof x = ''object'' \<and> \<not> loosely_null x)"

text \<open>
  One layer of coercion on its own: the transformation where the condition accepts the
  value, the value itself where it does not.
\<close>

definition layer ::
  "('w, 'd) Struct \<Rightarrow> (jsval \<Rightarrow> (jsval, 'w) comp) \<Rightarrow> jsval \<Rightarrow> (jsval, 'w) comp" where
  "layer condition t v = (if is' v condition then t v else return v)"

text \<open>
  The order of composition in the words of the specification, for
  \<^verbatim>\<open>coerce(coerce(S, c1, t1), c2, t2)\<close>: the layer registered first (the inner one) sees
  the input, the layer registered later (the outer one) sees what the inner one made of
  it.  This definition follows the specification, not the source.
\<close>

definition innermost_first ::
  "('w, 'c) Struct \<Rightarrow> ('w, 'd) Struct \<Rightarrow> (jsval \<Rightarrow> (jsval, 'w) comp) \<Rightarrow>
   ('w, 'e) Struct \<Rightarrow> (jsval \<Rightarrow> (jsval, 'w) comp) \<Rightarrow> jsval \<Rightarrow> (jsval, 'w) comp" where
  "innermost_first S c1 t1 c2 t2 v =
     bind (layer c1 t1 v) (\<lambda>v1. bind (layer c2 t2 v1) (coercer S))"

section \<open>Basic facts\<close>

lemma bind_return: "bind (return a) k = k a"
  by (simp add: bind_def return_def)

lemma bind_lift_Inr: "bind (lift (Inr a)) k = k a"
  by (simp add: bind_def lift_def)

lemma is_unknown: "is' v unknown"
  by (simp add: is'_def validate_def unknown_def)

lemma typeof_string: "(typeof v = ''string'') = (\<exists>s. v = Str s)"
  by (cases v) simp_all

lemma is_string_struct: "is' v string_struct = (\<exists>s. v = Str s)"
  by (simp add: is'_def validate_def string_struct_def typeof_string)

lemma coercer_coerce:
  "coercer (coerce S c t) v = (if is' v c then bind (t v) (coercer S) else coercer S v)"
  by (simp add: coerce_def Let_def)

lemma bind_assoc: "bind (bind m k) h = bind m (\<lambda>a. bind (k a) h)"
  by (simp add: bind_def fun_eq_iff split: prod.splits sum.splits)

lemma coercer_defaulted:
  "coercer (defaulted R S fb strict) x =
     bind (resolve fb) (\<lambda>f. bind (lift (defaulted_coercion R strict f x)) (coercer S))"
  by (simp add: defaulted_def coercer_coerce is_unknown bind_assoc)

lemma coercer_masked:
  "coercer (masked R S) x = bind (lift (masked_coercion R (schema S) x)) (coercer S)"
  by (simp add: masked_def coercer_coerce is_unknown)

lemma coercer_trimmed:
  "coercer (trimmed S) x =
     (case x of Str s \<Rightarrow> coercer S (Str (trim s)) | _ \<Rightarrow> coercer S x)"
  by (cases x)
     (simp_all add: trimmed_def coercer_coerce is_string_struct call_trim_def bind_lift_Inr)

subsection \<open>Property lists\<close>

lemma map_of_app:
  "map_of (xs @ ys) k = (case map_of xs k of None \<Rightarrow> map_of ys k | Some v \<Rightarrow> Some v)"
  by (simp add: map_add_def)

lemma map_of_assign_map:
  "map_of (map (\<lambda>p. if fst p = key then (key, v) else p) ps) k =
     (if k = key then (case map_of ps key of None \<Rightarrow> None | Some u \<Rightarrow> Some v)
      else map_of ps k)"
  by (induction ps) auto

lemma map_of_prop_create:
  assumes "map_of ps key = None"
  shows "map_of (prop_create ps key v) k = (if k = key then Some v else map_of ps k)"
proof (cases "array_index key")
  case None
  with assms show ?thesis
    by (simp add: prop_create_def map_add_def split: option.splits)
next
  case (Some i)
  let ?tw = "takeWhile (index_below i) ps" and ?dw = "dropWhile (index_below i) ps"
  have ps: "map_of ps k = (case map_of ?tw k of None \<Rightarrow> map_of ?dw k | Some u \<Rightarrow> Some u)" for k
    using map_of_app [of ?tw ?dw k] by simp
  from assms ps [of key] have "map_of ?tw key = None"
    by (simp split: option.splits)
  with Some ps [of k] show ?thesis
    by (simp add: prop_create_def map_add_def split: option.splits)
qed

lemma map_of_assign:
  "map_of (assign ps key v) k = (if k = key then Some v else map_of ps k)"
proof (cases "map_of ps key")
  case None
  then have "key \<notin> fst ` set ps"
    by (simp add: map_of_eq_None_iff)
  with None show ?thesis
    by (simp add: assign_def map_of_prop_create)
next
  case (Some u)
  then have "key \<in> fst ` set ps"
    by (metis map_of_eq_None_iff option.distinct(1))
  with Some show ?thesis
    by (simp add: assign_def map_of_assign_map)
qed

lemma prop_get_assign:
  "prop_get (assign ps key v) k = (if k = key then v else prop_get ps k)"
  by (simp add: prop_get_def map_of_assign)

lemma keys_assign: "fst ` set (assign ps key v) = insert key (fst ` set ps)"
proof -
  have "fst ` set qs = dom (map_of qs)" for qs :: props
    by (simp add: dom_map_of_conv_image_fst)
  then show ?thesis
    by (auto simp: map_of_assign dom_def)
qed

lemma map_fst_assign_map:
  "map fst (map (\<lambda>p. if fst p = key then (key, v) else p) ps) = map fst ps"
  by (induction ps) auto

lemma distinct_assign:
  assumes "distinct (map fst ps)"
  shows "distinct (map fst (assign ps key v))"
proof (cases "key \<in> fst ` set ps")
  case True
  then have "assign ps key v = map (\<lambda>p. if fst p = key then (key, v) else p) ps"
    by (simp add: assign_def)
  with assms show ?thesis
    by (simp only: map_fst_assign_map)
next
  case False
  have split: "map fst (takeWhile P ps) @ map fst (dropWhile P ps) = map fst ps" for P
    by (metis map_append takeWhile_dropWhile_id)
  have "distinct (map fst (takeWhile P ps) @ map fst (dropWhile P ps))" for P
    using assms by (simp only: split)
  moreover have "key \<notin> fst ` set (takeWhile P ps)" for P
    using False by (auto dest: set_takeWhileD)
  moreover have "key \<notin> fst ` set (dropWhile P ps)" for P
    using False by (auto dest: set_dropWhileD)
  ultimately show ?thesis
    using False assms
    by (simp add: assign_def prop_create_def split: option.splits)
qed


subsection \<open>Reading and assigning\<close>

lemma get_property_Obj:
  "get_property R (Obj ps) k =
     (case map_of ps k of
        Some v \<Rightarrow> Inr v
      | None \<Rightarrow>
          (case map_of (object_prototype R) k of
             None \<Rightarrow> Inr Undefined
           | Some (Data v) \<Rightarrow> Inr v
           | Some Accessor \<Rightarrow> Inl (InheritedAccessor k)))"
  by (simp add: get_property_def find_property_def loosely_null_def split: option.splits)

lemma get_property_assign:
  "get_property R (Obj (assign ps key v)) k =
     (if k = key then Inr v else get_property R (Obj ps) k)"
  by (simp add: get_property_Obj map_of_assign)

lemma get_property_own:
  "k \<in> fst ` set ps \<Longrightarrow> get_property R (Obj ps) k = Inr (prop_get ps k)"
proof -
  assume "k \<in> fst ` set ps"
  then obtain v where "map_of ps k = Some v"
    by (metis map_of_eq_None_iff not_None_eq)
  then show ?thesis
    by (simp add: get_property_Obj prop_get_def)
qed

lemma get_property_plain:
  "\<not> is_accessor (object_prototype R) k \<Longrightarrow> \<exists>r. get_property R (Obj ps) k = Inr r"
  by (auto simp: get_property_Obj is_accessor_def split: option.splits slot.splits)

lemma put_plain:
  "\<not> is_accessor (object_prototype R) key \<Longrightarrow> put R ret key v = Inr (assign ret key v)"
  by (simp add: put_def)

subsection \<open>The loop of \<^verbatim>\<open>defaulted\<close>\<close>

lemma fill_loop_result:
  assumes "\<forall>k\<in>set keys. \<not> is_accessor (object_prototype R) k"
    and "set keys \<subseteq> fst ` set fs"
  shows "\<exists>ret' ch'. fill_loop R (Obj fs) keys (ret, ch) = Inr (ret', ch') \<and>
           ch' = (ch \<or> (\<exists>k\<in>set keys. get_property R (Obj ret) k = Inr Undefined)) \<and>
           (\<forall>k. prop_get ret' k =
                 (if k \<in> set keys \<and> get_property R (Obj ret) k = Inr Undefined
                  then prop_get fs k else prop_get ret k)) \<and>
           fst ` set ret' =
             fst ` set ret \<union> {k \<in> set keys. get_property R (Obj ret) k = Inr Undefined} \<and>
           (distinct (map fst ret) \<longrightarrow> distinct (map fst ret'))"
  using assms
proof (induction keys arbitrary: ret ch)
  case Nil
  show ?case by simp
next
  case (Cons key keys)
  from Cons.prems have plain: "\<not> is_accessor (object_prototype R) key"
    and rest: "\<forall>k\<in>set keys. \<not> is_accessor (object_prototype R) k"
    and own: "key \<in> fst ` set fs" and sub: "set keys \<subseteq> fst ` set fs"
    by auto
  from plain obtain r where r: "get_property R (Obj ret) key = Inr r"
    using get_property_plain by blast
  show ?case
  proof (cases "r = Undefined")
    case False
    from Cons.IH [OF rest sub, of ret ch] obtain ret' ch' where
      ih: "fill_loop R (Obj fs) keys (ret, ch) = Inr (ret', ch')"
        "ch' = (ch \<or> (\<exists>k\<in>set keys. get_property R (Obj ret) k = Inr Undefined))"
        "\<forall>k. prop_get ret' k =
                 (if k \<in> set keys \<and> get_property R (Obj ret) k = Inr Undefined
                  then prop_get fs k else prop_get ret k)"
        "fst ` set ret' =
             fst ` set ret \<union> {k \<in> set keys. get_property R (Obj ret) k = Inr Undefined}"
        "distinct (map fst ret) \<longrightarrow> distinct (map fst ret')"
      by blast
    have "fill_loop R (Obj fs) (key # keys) (ret, ch) = Inr (ret', ch')"
      using r False ih(1) by simp
    moreover have "ch' =
        (ch \<or> (\<exists>k\<in>set (key # keys). get_property R (Obj ret) k = Inr Undefined))"
      using r False ih(2) by auto
    moreover have "\<forall>k. prop_get ret' k =
        (if k \<in> set (key # keys) \<and> get_property R (Obj ret) k = Inr Undefined
         then prop_get fs k else prop_get ret k)"
      using r False ih(3) by auto
    moreover have "fst ` set ret' =
        fst ` set ret \<union> {k \<in> set (key # keys). get_property R (Obj ret) k = Inr Undefined}"
      using r False ih(4) by auto
    ultimately show ?thesis
      using ih(5) by blast
  next
    case True
    let ?v = "prop_get fs key"
    let ?ret1 = "assign ret key ?v"
    have fv: "get_property R (Obj fs) key = Inr ?v"
      using own by (rule get_property_own)
    have pv: "put R ret key ?v = Inr ?ret1"
      using plain by (rule put_plain)
    have rd: "get_property R (Obj ?ret1) k =
        (if k = key then Inr ?v else get_property R (Obj ret) k)" for k
      by (rule get_property_assign)
    from Cons.IH [OF rest sub, of ?ret1 True] obtain ret' ch' where
      ih: "fill_loop R (Obj fs) keys (?ret1, True) = Inr (ret', ch')"
        "ch' = (True \<or> (\<exists>k\<in>set keys. get_property R (Obj ?ret1) k = Inr Undefined))"
        "\<forall>k. prop_get ret' k =
                 (if k \<in> set keys \<and> get_property R (Obj ?ret1) k = Inr Undefined
                  then prop_get fs k else prop_get ?ret1 k)"
        "fst ` set ret' =
             fst ` set ?ret1 \<union> {k \<in> set keys. get_property R (Obj ?ret1) k = Inr Undefined}"
        "distinct (map fst ?ret1) \<longrightarrow> distinct (map fst ret')"
      by blast
    have "fill_loop R (Obj fs) (key # keys) (ret, ch) = Inr (ret', ch')"
      using r True fv pv ih(1) by simp
    moreover have "ch' =
        (ch \<or> (\<exists>k\<in>set (key # keys). get_property R (Obj ret) k = Inr Undefined))"
      using r True ih(2) by auto
    moreover have "\<forall>k. prop_get ret' k =
        (if k \<in> set (key # keys) \<and> get_property R (Obj ret) k = Inr Undefined
         then prop_get fs k else prop_get ret k)"
      using r True ih(3) by (auto simp: rd prop_get_assign)
    moreover have "fst ` set ret' =
        fst ` set ret \<union> {k \<in> set (key # keys). get_property R (Obj ret) k = Inr Undefined}"
      using r True ih(4) by (auto simp: rd keys_assign)
    moreover have "distinct (map fst ret) \<longrightarrow> distinct (map fst ret')"
      using ih(5) by (simp add: distinct_assign)
    ultimately show ?thesis by blast
  qed
qed

subsection \<open>The loop of \<^verbatim>\<open>masked\<close>\<close>

lemma is_object_cases:
  "is_object x = ((\<exists>xs. x = Arr xs) \<or> (\<exists>ps. x = Obj ps) \<or> (\<exists>c ps. x = Inst c ps))"
  by (cases x) (simp_all add: is_object_def loosely_null_def)

lemma has_property_object: "is_object x \<Longrightarrow> \<exists>b. has_property R x key = Inr b"
  by (auto simp: is_object_cases)

lemma has_property_find:
  "is_object x \<Longrightarrow> has_property R x key = Inr (find_property R x key \<noteq> None)"
  by (auto simp: is_object_cases)

lemma get_property_object:
  assumes "is_object x" and "\<not> is_accessor (inherited R x) key"
  shows "\<exists>v. get_property R x key = Inr v"
proof -
  from assms(1) have "\<not> loosely_null x"
    by (simp add: is_object_def)
  with assms(2) show ?thesis
    by (auto simp: get_property_def find_property_def is_accessor_def
             split: option.splits slot.splits)
qed

lemma mask_loop_object:
  assumes "is_object x"
    and "\<forall>k\<in>set keys. \<not> is_accessor (inherited R x) k \<and> \<not> is_accessor (object_prototype R) k"
  shows "\<exists>ret. mask_loop R x keys acc = Inr ret \<and>
           fst ` set ret = fst ` set acc \<union> {k \<in> set keys. has_property R x k = Inr True} \<and>
           (\<forall>k. if k \<in> set keys \<and> has_property R x k = Inr True
                then get_property R x k = Inr (prop_get ret k)
                else prop_get ret k = prop_get acc k) \<and>
           (distinct (map fst acc) \<longrightarrow> distinct (map fst ret))"
  using assms(2)
proof (induction keys arbitrary: acc)
  case Nil
  show ?case by simp
next
  case (Cons key keys)
  from Cons.prems have here: "\<not> is_accessor (inherited R x) key"
    "\<not> is_accessor (object_prototype R) key"
    and rest: "\<forall>k\<in>set keys. \<not> is_accessor (inherited R x) k \<and>
                 \<not> is_accessor (object_prototype R) k"
    by auto
  from assms(1) obtain b where b: "has_property R x key = Inr b"
    using has_property_object by blast
  from assms(1) here(1) obtain v where v: "get_property R x key = Inr v"
    using get_property_object by blast
  have pv: "put R acc key v = Inr (assign acc key v)"
    using here(2) by (rule put_plain)
  show ?case
  proof (cases b)
    case False
    with b Cons.IH [OF rest, of acc] show ?thesis by auto
  next
    case True
    from Cons.IH [OF rest, of "assign acc key v"] obtain ret where
      ret: "mask_loop R x keys (assign acc key v) = Inr ret"
        "fst ` set ret =
           fst ` set (assign acc key v) \<union> {k \<in> set keys. has_property R x k = Inr True}"
        "\<forall>k. if k \<in> set keys \<and> has_property R x k = Inr True
                then get_property R x k = Inr (prop_get ret k)
                else prop_get ret k = prop_get (assign acc key v) k"
        "distinct (map fst (assign acc key v)) \<longrightarrow> distinct (map fst ret)"
      by blast
    have "mask_loop R x (key # keys) acc = Inr ret"
      using b v pv True ret(1) by simp
    moreover have "fst ` set ret =
        fst ` set acc \<union> {k \<in> set (key # keys). has_property R x k = Inr True}"
      using ret(2) b True by (auto simp: keys_assign)
    moreover have "\<forall>k. if k \<in> set (key # keys) \<and> has_property R x k = Inr True
                then get_property R x k = Inr (prop_get ret k)
                else prop_get ret k = prop_get acc k"
      using ret(3) b v True by (auto simp: prop_get_assign split: if_splits)
    moreover have "distinct (map fst acc) \<longrightarrow> distinct (map fst ret)"
      using ret(4) by (simp add: distinct_assign)
    ultimately show ?thesis by blast
  qed
qed

subsection \<open>Trimming\<close>

lemma rev_dropWhile_takeWhile:
  "xs = rev (dropWhile P (rev xs)) @ rev (takeWhile P (rev xs))"
  by (metis rev_append rev_rev_ident takeWhile_dropWhile_id)

lemma trim_decompose:
  "\<exists>l r. s = l @ trim s @ r \<and> list_all is_white_space l \<and> list_all is_white_space r"
proof -
  let ?s1 = "dropWhile is_white_space s"
  let ?l = "takeWhile is_white_space s"
  let ?r = "rev (takeWhile is_white_space (rev ?s1))"
  have "?s1 = trim s @ ?r"
    unfolding trim_def by (rule rev_dropWhile_takeWhile)
  moreover have "s = ?l @ ?s1" by simp
  ultimately have "s = ?l @ trim s @ ?r" by simp
  moreover have "list_all is_white_space ?l"
    by (simp add: list_all_iff) (meson set_takeWhileD)
  moreover have "list_all is_white_space ?r"
    by (simp add: list_all_iff) (meson set_takeWhileD)
  ultimately show ?thesis by blast
qed

lemma trim_ends:
  assumes "trim s \<noteq> []"
  shows "\<not> is_white_space (hd (trim s))" and "\<not> is_white_space (last (trim s))"
proof -
  let ?s1 = "dropWhile is_white_space s"
  let ?d = "dropWhile is_white_space (rev ?s1)"
  from assms have d: "?d \<noteq> []" by (simp add: trim_def)
  then have "\<not> is_white_space (hd ?d)" by (rule hd_dropWhile)
  with d show "\<not> is_white_space (last (trim s))"
    by (simp add: trim_def last_rev)
  have s1: "?s1 \<noteq> []"
    using d by (metis dropWhile.simps(1) rev.simps(1))
  then have nw: "\<not> is_white_space (hd ?s1)" by (rule hd_dropWhile)
  have "?s1 = trim s @ rev (takeWhile is_white_space (rev ?s1))"
    unfolding trim_def by (rule rev_dropWhile_takeWhile)
  then have "hd ?s1 = hd (trim s)"
    using assms by (metis hd_append2)
  with nw show "\<not> is_white_space (hd (trim s))" by simp
qed


subsection \<open>The coercions of the combinators\<close>

lemma bind_layer:
  "bind (layer c t v) k = (if is' v c then bind (t v) k else k v)"
  by (simp add: layer_def bind_return)

lemma defaulted_coercion_merge:
  assumes "\<forall>k\<in>fst ` set fs. \<not> is_accessor (object_prototype R) k"
  shows "\<exists>ret. defaulted_coercion R False (Obj fs) (Obj xs) =
           Inr (if \<exists>k\<in>fst ` set fs. get_property R (Obj xs) k = Inr Undefined
                then Obj ret else Obj xs) \<and>
         (\<forall>k. prop_get ret k =
               (if k \<in> fst ` set fs \<and> get_property R (Obj xs) k = Inr Undefined
                then prop_get fs k else prop_get xs k)) \<and>
         fst ` set ret =
           fst ` set xs \<union> {k \<in> fst ` set fs. get_property R (Obj xs) k = Inr Undefined} \<and>
         (distinct (map fst xs) \<longrightarrow> distinct (map fst ret))"
proof -
  have keys: "set (map fst fs) = fst ` set fs" by simp
  from assms have plain: "\<forall>k\<in>set (map fst fs). \<not> is_accessor (object_prototype R) k"
    by simp
  have sub: "set (map fst fs) \<subseteq> fst ` set fs" by simp
  from fill_loop_result [OF plain sub, of xs False] obtain ret ch where
    fl: "fill_loop R (Obj fs) (map fst fs) (xs, False) = Inr (ret, ch)"
      "ch = (False \<or> (\<exists>k\<in>set (map fst fs). get_property R (Obj xs) k = Inr Undefined))"
      "\<forall>k. prop_get ret k =
           (if k \<in> set (map fst fs) \<and> get_property R (Obj xs) k = Inr Undefined
            then prop_get fs k else prop_get xs k)"
      "fst ` set ret =
         fst ` set xs \<union> {k \<in> set (map fst fs). get_property R (Obj xs) k = Inr Undefined}"
      "distinct (map fst xs) \<longrightarrow> distinct (map fst ret)"
    by blast
  from fl(1,2) have "defaulted_coercion R False (Obj fs) (Obj xs) =
      Inr (if \<exists>k\<in>fst ` set fs. get_property R (Obj xs) k = Inr Undefined
           then Obj ret else Obj xs)"
    by (simp add: defaulted_coercion_def keys)
  with fl(3-5) show ?thesis
    unfolding keys by blast
qed

lemma masked_coercion_object:
  assumes "is_object x"
    and "\<forall>k\<in>fst ` set ks. \<not> is_accessor (inherited R x) k \<and>
           \<not> is_accessor (object_prototype R) k"
  shows "\<exists>ret. masked_coercion R (SchemaObject ks) x = Inr (Obj ret) \<and>
           fst ` set ret = {k \<in> fst ` set ks. has_property R x k = Inr True} \<and>
           (\<forall>k\<in>fst ` set ret. get_property R x k = Inr (prop_get ret k)) \<and>
           distinct (map fst ret)"
proof -
  from assms(2) have plain: "\<forall>k\<in>set (map fst ks). \<not> is_accessor (inherited R x) k \<and>
      \<not> is_accessor (object_prototype R) k"
    by simp
  note loop = mask_loop_object [OF assms(1) plain, of "[]"]
  from loop obtain ret where ret: "mask_loop R x (map fst ks) [] = Inr ret"
    by blast
  from loop ret have keys: "fst ` set ret = {k \<in> fst ` set ks. has_property R x k = Inr True}"
    by auto
  from loop ret have vals: "k \<in> fst ` set ks \<Longrightarrow> has_property R x k = Inr True \<Longrightarrow>
      get_property R x k = Inr (prop_get ret k)" for k
    by (auto split: if_splits)
  from loop ret have dist: "distinct (map fst ret)"
    by auto
  from assms(1) ret have "masked_coercion R (SchemaObject ks) x = Inr (Obj ret)"
    by (simp add: masked_coercion_def is_object_def)
  moreover have "\<forall>k\<in>fst ` set ret. get_property R x k = Inr (prop_get ret k)"
    using keys vals by blast
  ultimately show ?thesis
    using keys dist by blast
qed

lemma masked_coercion_pass:
  assumes "(\<forall>ks. sch \<noteq> SchemaObject ks) \<or> \<not> is_object x"
  shows "masked_coercion R sch x = Inr x"
  using assms by (cases sch) (auto simp: masked_coercion_def is_object_def)

section \<open>The claims\<close>

subsection \<open>Claim C1\<close>

text \<open>
  Claim C1, as the specification states it: the coercer of
  \<^verbatim>\<open>coerce(coerce(S, c1, t1), c2, t2)\<close> applies the transformation registered first,
  \<open>t1\<close>, to the input, and the one registered later, \<open>t2\<close>, to its outcome.  The source
  does the opposite.  Take the struct of strings trimmed as \<^verbatim>\<open>trimmed\<close> does and then
  given the default \<^verbatim>\<open>"  hi  "\<close> as \<^verbatim>\<open>defaulted\<close> does: on \<^verbatim>\<open>undefined\<close> the coercer
  returns \<^verbatim>\<open>"hi"\<close>, the default trimmed, where the stated order returns the default
  as it is.
\<close>

theorem coerce_twice_counterexample:
  "coercer (coerce (coerce (string_struct :: (unit, unit) Struct)
                      (string_struct :: (unit, unit) Struct) (lift \<circ> call_trim))
              (unknown :: (unit, unit) Struct)
              (lift \<circ> defaulted_coercion sample_realm False (Str (js ''  hi  ''))))
     Undefined () \<noteq>
   innermost_first (string_struct :: (unit, unit) Struct)
     (string_struct :: (unit, unit) Struct) (lift \<circ> call_trim)
     (unknown :: (unit, unit) Struct)
     (lift \<circ> defaulted_coercion sample_realm False (Str (js ''  hi  '')))
     Undefined ()"
  by (simp add: js_def coerce_def is'_def validate_def bind_def return_def lift_def unknown_def
        string_struct_def fail_def trim_def is_white_space_def call_trim_def
        defaulted_coercion_def layer_def innermost_first_def)

text \<open>
  Claim C1, amended.  The coercer of \<^verbatim>\<open>coerce(coerce(S, c1, t1), c2, t2)\<close> applies the
  layer registered last first: \<open>c2\<close> is checked against the input and \<open>t2\<close> applied to
  it, then \<open>c1\<close> is checked against what the outer layer made of the input and \<open>t1\<close>
  applied to that, and the original coercer of \<open>S\<close> comes last.  Each condition is checked
  against the value as its own layer sees it.
\<close>

theorem coerce_twice_outermost_first:
  "coercer (coerce (coerce S c1 t1) c2 t2) v =
     bind (layer c2 t2 v) (\<lambda>v2. bind (layer c1 t1 v2) (coercer S))"
proof -
  have inner: "coercer (coerce S c1 t1) = (\<lambda>v2. bind (layer c1 t1 v2) (coercer S))"
    by (rule ext) (simp add: coercer_coerce bind_layer)
  show ?thesis
    by (simp add: coercer_coerce [of "coerce S c1 t1"] bind_layer inner)
qed

text \<open>The theorem at the trimmed and defaulted struct of strings.\<close>

theorem coerce_twice_outermost_first_witness:
  "coercer (coerce (coerce (string_struct :: (unit, unit) Struct)
                      (string_struct :: (unit, unit) Struct) (\<lambda>x. lift (call_trim x)))
              (unknown :: (unit, unit) Struct)
              (\<lambda>x. lift (defaulted_coercion sample_realm False (Str (js ''  hi  '')) x)))
     Undefined () = (Inr (Str (js ''hi'')), ())"
  using coerce_twice_outermost_first [of "string_struct :: (unit, unit) Struct"
          "string_struct :: (unit, unit) Struct" "\<lambda>x. lift (call_trim x)"
          "unknown :: (unit, unit) Struct"
          "\<lambda>x. lift (defaulted_coercion sample_realm False (Str (js ''  hi  '')) x)" Undefined]
  by (simp add: js_def coerce_def is'_def validate_def bind_def return_def lift_def unknown_def
        string_struct_def fail_def trim_def is_white_space_def call_trim_def
        defaulted_coercion_def layer_def)

subsection \<open>Claim C2\<close>

text \<open>
  Claim C2.  For every struct \<open>S\<close>, condition \<open>c\<close>, transformation \<open>t\<close> and input \<open>v\<close>, the
  coercer of \<^verbatim>\<open>coerce(S, c, t)\<close> is the original coercer of \<open>S\<close> applied to the outcome of
  \<open>t\<close> on \<open>v\<close> when \<^verbatim>\<open>is\<close> accepts \<open>v\<close> for \<open>c\<close>, and the original coercer of \<open>S\<close>
  applied to \<open>v\<close> itself when it does not.  The coercer raises no error of its own: an
  error it ends with was thrown by \<open>t\<close> or by the original coercer of \<open>S\<close>.
\<close>

theorem coerce_conditional:
  "(is' v c \<longrightarrow> coercer (coerce S c t) v = bind (t v) (coercer S)) \<and>
   (\<not> is' v c \<longrightarrow> coercer (coerce S c t) v = coercer S v) \<and>
   (\<forall>w e. fst (coercer (coerce S c t) v w) = Inl e \<longrightarrow>
      (is' v c \<and> fst (t v w) = Inl e) \<or>
      (is' v c \<and> (\<exists>v' w'. t v w = (Inr v', w') \<and> fst (coercer S v' w') = Inl e)) \<or>
      (\<not> is' v c \<and> fst (coercer S v w) = Inl e))"
proof (intro conjI allI impI)
  assume "is' v c"
  then show "coercer (coerce S c t) v = bind (t v) (coercer S)"
    by (simp add: coercer_coerce)
next
  assume "\<not> is' v c"
  then show "coercer (coerce S c t) v = coercer S v"
    by (simp add: coercer_coerce)
next
  fix w e
  assume err: "fst (coercer (coerce S c t) v w) = Inl e"
  show "(is' v c \<and> fst (t v w) = Inl e) \<or>
        (is' v c \<and> (\<exists>v' w'. t v w = (Inr v', w') \<and> fst (coercer S v' w') = Inl e)) \<or>
        (\<not> is' v c \<and> fst (coercer S v w) = Inl e)"
  proof (cases "is' v c")
    case False
    with err show ?thesis by (simp add: coercer_coerce)
  next
    case True
    obtain r w' where r: "t v w = (r, w')" by (cases "t v w")
    show ?thesis
    proof (cases r)
      case (Inl e')
      with err True r show ?thesis by (simp add: coercer_coerce bind_def)
    next
      case (Inr v')
      with err True r show ?thesis by (simp add: coercer_coerce bind_def)
    qed
  qed
qed

text \<open>
  The theorem at the string \<^verbatim>\<open>"  hi  "\<close> and at the number 42, for a condition that
  accepts strings, and at a transformation that throws.
\<close>

theorem coerce_conditional_witness:
  "is' (Str (js ''  hi  '')) (string_struct :: (unit, unit) Struct) \<and>
   coercer (coerce (unknown :: (unit, unit) Struct) (string_struct :: (unit, unit) Struct)
              (\<lambda>x. lift (call_trim x))) (Str (js ''  hi  '')) () = (Inr (Str (js ''hi'')), ()) \<and>
   \<not> is' (Num 42) (string_struct :: (unit, unit) Struct) \<and>
   coercer (coerce (unknown :: (unit, unit) Struct) (string_struct :: (unit, unit) Struct)
              (\<lambda>x. lift (call_trim x))) (Num 42) () = (Inr (Num 42), ()) \<and>
   fst (coercer (coerce (unknown :: (unit, unit) Struct) (unknown :: (unit, unit) Struct)
              (\<lambda>x. throw (Thrown x))) (Num 42) ()) = Inl (Thrown (Num 42)) \<and>
   is' (Num 42) (unknown :: (unit, unit) Struct) \<and>
   fst (throw (Thrown (Num 42)) ()) = (Inl (Thrown (Num 42)) :: error + jsval)"
  using coerce_conditional [of "Str (js ''  hi  '')" "string_struct :: (unit, unit) Struct"
          "unknown :: (unit, unit) Struct" "\<lambda>x. lift (call_trim x)"]
        coerce_conditional [of "Num 42" "string_struct :: (unit, unit) Struct"
          "unknown :: (unit, unit) Struct" "\<lambda>x. lift (call_trim x)"]
        coerce_conditional [of "Num 42" "unknown :: (unit, unit) Struct"
          "unknown :: (unit, unit) Struct" "\<lambda>x. throw (Thrown x)"]
  by (simp add: js_def coerce_def is'_def validate_def bind_def return_def lift_def unknown_def
        string_struct_def fail_def trim_def is_white_space_def call_trim_def throw_def)

subsection \<open>Claim C3\<close>

text \<open>
  Claim C3, as the specification states it: outside strict mode, on a plain record with a
  plain record as the fallback, the coercer of \<^verbatim>\<open>defaulted(S, f)\<close> fills in every key
  of the fallback that is \<^verbatim>\<open>undefined\<close> or absent in the input, and returns the merged
  copy when a key was filled in.  It does not for every \<open>S\<close>: the merged copy goes through
  the original coercer of \<open>S\<close>.  With a masked struct that declares the key \<^verbatim>\<open>a\<close> alone
  as \<open>S\<close>, the fallback \<^verbatim>\<open>{a: 1, b: 2}\<close> and the input \<^verbatim>\<open>{a: 5}\<close>, the coercer does
  not return the merged copy \<^verbatim>\<open>{a: 5, b: 2}\<close>.  Nor is every absent key filled in: the
  test of line 61 reads the copy through \<^verbatim>\<open>Object.prototype\<close>, so with the fallback
  \<^verbatim>\<open>{toString: 1}\<close> the input \<^verbatim>\<open>{}\<close>, in which \<^verbatim>\<open>toString\<close> is absent, is not
  merged to \<^verbatim>\<open>{toString: 1}\<close>.
\<close>

theorem defaulted_merge_counterexample:
  "coercer (defaulted sample_realm
              (masked sample_realm ((unknown :: (unit, unit) Struct)
                                      \<lparr>schema := SchemaObject [(js ''a'', ())]\<rparr>))
              (FallbackValue (Obj [(js ''a'', Num 1), (js ''b'', Num 2)])) False)
     (Obj [(js ''a'', Num 5)]) () \<noteq>
   (Inr (Obj [(js ''a'', Num 5), (js ''b'', Num 2)]), ()) \<and>
   coercer (defaulted sample_realm (unknown :: (unit, unit) Struct)
              (FallbackValue (Obj [(js ''toString'', Num 1)])) False)
     (Obj []) () \<noteq>
   (Inr (Obj [(js ''toString'', Num 1)]), ())"
  by (simp add: js_def coerce_def is'_def validate_def bind_def return_def lift_def unknown_def
        defaulted_def resolve_def defaulted_coercion_def prop_get_def assign_def
        prop_create_def array_index_def decimal_def is_digit_def index_below_def
        get_property_def find_property_def put_def is_accessor_def sample_realm_def
        builtin_def loosely_null_def masked_def masked_coercion_def)

text \<open>
  Claim C3, amended.  Outside strict mode, when the input and the resolved fallback are
  plain records and no key of the fallback names an accessor of \<^verbatim>\<open>Object.prototype\<close>
  (such as \<^verbatim>\<open>__proto__\<close>), the coercer of \<^verbatim>\<open>defaulted(S, f)\<close> merges one level deep
  and hands the outcome to the original coercer of \<open>S\<close>, whose result it returns.  When
  some key of the fallback reads \<^verbatim>\<open>undefined\<close> in the input (the input holds
  \<^verbatim>\<open>undefined\<close> under it, or has no such property and inherits none from
  \<^verbatim>\<open>Object.prototype\<close>), the value handed on is a copy of the input in which exactly
  those keys hold the values of the fallback, and every other key is as in the input;
  when there is no such key it is the input itself.
\<close>

theorem defaulted_merge:
  assumes "resolve fb w = (Inr (Obj fs), w')"
    and "\<forall>k\<in>fst ` set fs. \<not> is_accessor (object_prototype R) k"
  shows "\<exists>ret. coercer (defaulted R S fb False) (Obj xs) w =
           coercer S (if \<exists>k\<in>fst ` set fs. get_property R (Obj xs) k = Inr Undefined
                      then Obj ret else Obj xs) w' \<and>
         (\<forall>k. prop_get ret k =
               (if k \<in> fst ` set fs \<and> get_property R (Obj xs) k = Inr Undefined
                then prop_get fs k else prop_get xs k)) \<and>
         fst ` set ret =
           fst ` set xs \<union> {k \<in> fst ` set fs. get_property R (Obj xs) k = Inr Undefined} \<and>
         (distinct (map fst xs) \<longrightarrow> distinct (map fst ret))"
proof -
  from defaulted_coercion_merge [OF assms(2), of xs] obtain ret where
    ret: "defaulted_coercion R False (Obj fs) (Obj xs) =
           Inr (if \<exists>k\<in>fst ` set fs. get_property R (Obj xs) k = Inr Undefined
                then Obj ret else Obj xs)"
      "\<forall>k. prop_get ret k =
               (if k \<in> fst ` set fs \<and> get_property R (Obj xs) k = Inr Undefined
                then prop_get fs k else prop_get xs k)"
      "fst ` set ret =
         fst ` set xs \<union> {k \<in> fst ` set fs. get_property R (Obj xs) k = Inr Undefined}"
      "distinct (map fst xs) \<longrightarrow> distinct (map fst ret)"
    by blast
  have "coercer (defaulted R S fb False) (Obj xs) w =
          bind (lift (defaulted_coercion R False (Obj fs) (Obj xs))) (coercer S) w'"
    using assms(1) by (simp add: coercer_defaulted bind_def)
  then have "coercer (defaulted R S fb False) (Obj xs) w =
      coercer S (if \<exists>k\<in>fst ` set fs. get_property R (Obj xs) k = Inr Undefined
                 then Obj ret else Obj xs) w'"
    by (simp only: ret(1) bind_lift_Inr)
  with ret(2-4) show ?thesis by blast
qed

text \<open>
  The theorem at the fallback \<^verbatim>\<open>{a: 1, b: 2}\<close> with the inputs \<^verbatim>\<open>{a: 5}\<close> and
  \<^verbatim>\<open>{a: 5, b: 7}\<close>, and at the fallback \<^verbatim>\<open>{toString: 1}\<close> with the input \<^verbatim>\<open>{}\<close>,
  which stays as it is; all for a struct with the identity as its coercer.
\<close>

theorem defaulted_merge_witness:
  "resolve (FallbackValue (Obj [(js ''a'', Num 1), (js ''b'', Num 2)])) () =
     (Inr (Obj [(js ''a'', Num 1), (js ''b'', Num 2)]), ()) \<and>
   \<not> is_accessor (object_prototype sample_realm) (js ''a'') \<and>
   \<not> is_accessor (object_prototype sample_realm) (js ''b'') \<and>
   \<not> is_accessor (object_prototype sample_realm) (js ''toString'') \<and>
   is_accessor (object_prototype sample_realm) (js ''__proto__'') \<and>
   coercer (defaulted sample_realm (unknown :: (unit, unit) Struct)
              (FallbackValue (Obj [(js ''a'', Num 1), (js ''b'', Num 2)])) False)
     (Obj [(js ''a'', Num 5)]) () = (Inr (Obj [(js ''a'', Num 5), (js ''b'', Num 2)]), ()) \<and>
   coercer (defaulted sample_realm (unknown :: (unit, unit) Struct)
              (FallbackValue (Obj [(js ''a'', Num 1), (js ''b'', Num 2)])) False)
     (Obj [(js ''a'', Num 5), (js ''b'', Num 7)]) () =
     (Inr (Obj [(js ''a'', Num 5), (js ''b'', Num 7)]), ()) \<and>
   coercer (defaulted sample_realm (unknown :: (unit, unit) Struct)
              (FallbackValue (Obj [(js ''toString'', Num 1)])) False)
     (Obj []) () = (Inr (Obj []), ())"
proof -
  have h: "resolve (FallbackValue (Obj [(js ''a'', Num 1), (js ''b'', Num 2)])) () =
     (Inr (Obj [(js ''a'', Num 1), (js ''b'', Num 2)]), ())"
    by (simp add: resolve_def return_def)
  have h': "resolve (FallbackValue (Obj [(js ''toString'', Num 1)])) () =
     (Inr (Obj [(js ''toString'', Num 1)]), ())"
    by (simp add: resolve_def return_def)
  have a: "\<forall>k\<in>fst ` set [(js ''a'', Num 1), (js ''b'', Num 2)].
      \<not> is_accessor (object_prototype sample_realm) k"
    by (simp add: is_accessor_def sample_realm_def js_def)
  have a': "\<forall>k\<in>fst ` set [(js ''toString'', Num 1)].
      \<not> is_accessor (object_prototype sample_realm) k"
    by (simp add: is_accessor_def sample_realm_def js_def)
  show ?thesis
    using h a
      defaulted_merge [OF h a, of "unknown :: (unit, unit) Struct" "[(js ''a'', Num 5)]"]
      defaulted_merge [OF h a, of "unknown :: (unit, unit) Struct"
        "[(js ''a'', Num 5), (js ''b'', Num 7)]"]
      defaulted_merge [OF h' a', of "unknown :: (unit, unit) Struct" "[]"]
    by (simp add: js_def coerce_def is'_def validate_def bind_def return_def lift_def unknown_def
          defaulted_def resolve_def defaulted_coercion_def prop_get_def assign_def
          prop_create_def array_index_def decimal_def is_digit_def index_below_def
          get_property_def find_property_def put_def is_accessor_def sample_realm_def
          builtin_def loosely_null_def)
qed

subsection \<open>Claim C4\<close>

text \<open>
  Claim C4.  Each of the combinators \<^verbatim>\<open>coerce\<close>, \<^verbatim>\<open>defaulted\<close>, \<^verbatim>\<open>masked\<close> and
  \<^verbatim>\<open>trimmed\<close> returns the struct it was given with the coercer replaced and nothing
  else: the type, the schema and the validator of the result are those of the argument.
  The combinators are functions of their arguments, so the argument itself is as it was.
\<close>

theorem combinators_replace_coercer_only:
  "coerce S c t = S\<lparr>coercer := coercer (coerce S c t)\<rparr> \<and>
   type (coerce S c t) = type S \<and> schema (coerce S c t) = schema S \<and>
   validator (coerce S c t) = validator S \<and>
   defaulted R S fb strict = S\<lparr>coercer := coercer (defaulted R S fb strict)\<rparr> \<and>
   type (defaulted R S fb strict) = type S \<and> schema (defaulted R S fb strict) = schema S \<and>
   validator (defaulted R S fb strict) = validator S \<and>
   masked R S = S\<lparr>coercer := coercer (masked R S)\<rparr> \<and>
   type (masked R S) = type S \<and> schema (masked R S) = schema S \<and>
   validator (masked R S) = validator S \<and>
   trimmed S = S\<lparr>coercer := coercer (trimmed S)\<rparr> \<and>
   type (trimmed S) = type S \<and> schema (trimmed S) = schema S \<and>
   validator (trimmed S) = validator S"
  by (simp add: coerce_def defaulted_def masked_def trimmed_def Let_def)

text \<open>The theorem at the struct of numbers.\<close>

theorem combinators_replace_coercer_only_witness:
  "type (trimmed (number_struct :: (unit, unit) Struct)) = js ''number'' \<and>
   schema (masked sample_realm (number_struct :: (unit, unit) Struct)) = SchemaUndefined \<and>
   validator (defaulted sample_realm (number_struct :: (unit, unit) Struct)
                (FallbackValue (Num 0)) False)
     (Str (js ''a'')) \<lparr>ctx_path = [], ctx_branch = [Str (js ''a'')]\<rparr>
     = Some \<lparr>path = [], value' = Str (js ''a''), type' = js ''number'',
             branch = [Str (js ''a'')], reason = None\<rparr>"
  using combinators_replace_coercer_only [of "number_struct :: (unit, unit) Struct"
          "string_struct :: (unit, unit) Struct" "\<lambda>x. lift (call_trim x)" sample_realm
          "FallbackValue (Num 0)" False]
  by (simp add: js_def coerce_def trimmed_def masked_def defaulted_def number_struct_def fail_def)

subsection \<open>Claim C5\<close>

text \<open>
  Claim C5, as the specification states it: on \<^verbatim>\<open>undefined\<close> the coercer of
  \<^verbatim>\<open>defaulted(S, f)\<close> returns the resolved fallback, in strict mode too.  It does not
  for every \<open>S\<close>: with the trimmed struct of strings as \<open>S\<close> and the fallback
  \<^verbatim>\<open>" x "\<close>, it does not return \<^verbatim>\<open>" x "\<close>.
\<close>

theorem defaulted_undefined_counterexample:
  "coercer (defaulted sample_realm (trimmed (string_struct :: (unit, unit) Struct))
              (FallbackValue (Str (js '' x ''))) True) Undefined () \<noteq>
   (Inr (Str (js '' x '')), ())"
  by (simp add: js_def coerce_def is'_def validate_def bind_def return_def lift_def unknown_def
        string_struct_def fail_def trimmed_def trim_def is_white_space_def call_trim_def
        defaulted_def resolve_def defaulted_coercion_def)

text \<open>
  Claim C5, amended.  On \<^verbatim>\<open>undefined\<close> the coercer of \<^verbatim>\<open>defaulted(S, f)\<close> hands the
  resolved fallback to the original coercer of \<open>S\<close> and returns its result, in strict mode
  and outside it.  A fallback that is a function is called anew in every call of the
  coercer, whatever the input, in the world of that call; what it returns is the fallback
  of that call, and an error it throws ends the call.
\<close>

theorem defaulted_undefined:
  "coercer (defaulted R S fb strict) Undefined = bind (resolve fb) (coercer S) \<and>
   coercer (defaulted R S (FallbackValue f) strict) Undefined = coercer S f \<and>
   coercer (defaulted R S (FallbackFunction g) strict) v w =
     (case g w of
        (Inl e, w') \<Rightarrow> (Inl e, w')
      | (Inr f, w') \<Rightarrow> bind (lift (defaulted_coercion R strict f v)) (coercer S) w')"
proof (intro conjI)
  show "coercer (defaulted R S fb strict) Undefined = bind (resolve fb) (coercer S)"
    by (simp add: coercer_defaulted defaulted_coercion_def bind_lift_Inr)
  show "coercer (defaulted R S (FallbackValue f) strict) Undefined = coercer S f"
    by (simp add: coercer_defaulted defaulted_coercion_def resolve_def bind_return
          bind_lift_Inr)
  show "coercer (defaulted R S (FallbackFunction g) strict) v w =
     (case g w of
        (Inl e, w') \<Rightarrow> (Inl e, w')
      | (Inr f, w') \<Rightarrow> bind (lift (defaulted_coercion R strict f v)) (coercer S) w')"
    by (simp add: coercer_defaulted resolve_def bind_def split: prod.splits sum.splits)
qed

text \<open>
  The theorem at a fallback function that counts its calls in the world: two calls of the
  coercer in a row get two different fallbacks.
\<close>

theorem defaulted_undefined_witness:
  "coercer (defaulted sample_realm (unknown :: (int, unit) Struct)
              (FallbackFunction (\<lambda>n. (Inr (Num n), n + 1))) False) Undefined 0 =
     (Inr (Num 0), 1) \<and>
   coercer (defaulted sample_realm (unknown :: (int, unit) Struct)
              (FallbackFunction (\<lambda>n. (Inr (Num n), n + 1))) False) Undefined 1 =
     (Inr (Num 1), 2) \<and>
   coercer (defaulted sample_realm (unknown :: (int, unit) Struct)
              (FallbackFunction (\<lambda>n. (Inr (Num n), n + 1))) True) (Str (js ''a'')) 2 =
     (Inr (Str (js ''a'')), 3) \<and>
   coercer (defaulted sample_realm (unknown :: (int, unit) Struct) (FallbackValue (Num 7)) True) Undefined 0 =
     (Inr (Num 7), 0)"
  using defaulted_undefined [of sample_realm "unknown :: (int, unit) Struct"
          "FallbackFunction (\<lambda>n. (Inr (Num n), n + 1))" False "Num 7"
          "\<lambda>n. (Inr (Num n), n + 1)" Undefined 0]
    defaulted_undefined [of sample_realm "unknown :: (int, unit) Struct"
          "FallbackValue (Num 7)" True "Num 7"
          "\<lambda>n. (Inr (Num n), n + 1)" "Str (js ''a'')" 2]
  by (simp add: js_def coerce_def is'_def validate_def bind_def return_def lift_def unknown_def
        defaulted_def resolve_def defaulted_coercion_def)

subsection \<open>Claim C6\<close>

text \<open>
  Claim C6, as the specification states it: in strict mode the coercer of
  \<^verbatim>\<open>defaulted(S, f, {strict: true})\<close> returns every input other than \<^verbatim>\<open>undefined\<close>
  unchanged.  It does not for every \<open>S\<close>: with the trimmed struct of strings as \<open>S\<close> the
  input \<^verbatim>\<open>" x "\<close> does not come back unchanged.
\<close>

theorem defaulted_strict_counterexample:
  "coercer (defaulted sample_realm (trimmed (string_struct :: (unit, unit) Struct))
              (FallbackValue (Obj [(js ''a'', Num 1)])) True) (Str (js '' x '')) () \<noteq>
   (Inr (Str (js '' x '')), ())"
  by (simp add: js_def coerce_def is'_def validate_def bind_def return_def lift_def unknown_def
        string_struct_def fail_def trimmed_def trim_def is_white_space_def call_trim_def
        defaulted_def resolve_def defaulted_coercion_def)

text \<open>
  Claim C6, amended.  In strict mode the coercer of \<^verbatim>\<open>defaulted(S, f, {strict: true})\<close>
  never merges: it resolves the fallback and hands every input other than \<^verbatim>\<open>undefined\<close>
  unchanged to the original coercer of \<open>S\<close>, whose result it returns.  With the fallback
  \<^verbatim>\<open>{a: 1}\<close>, the input \<^verbatim>\<open>{}\<close> and the identity as the coercer of \<open>S\<close> the result is
  \<^verbatim>\<open>{}\<close>.
\<close>

theorem defaulted_strict:
  assumes "x \<noteq> Undefined"
  shows "coercer (defaulted R S fb True) x = bind (resolve fb) (\<lambda>f. coercer S x) \<and>
         coercer (defaulted R S (FallbackValue f) True) x = coercer S x"
  using assms
  by (simp add: coercer_defaulted defaulted_coercion_def resolve_def bind_return bind_lift_Inr)

text \<open>The theorem at the fallback \<^verbatim>\<open>{a: 1}\<close> and the input \<^verbatim>\<open>{}\<close>.\<close>

theorem defaulted_strict_witness:
  "Obj [] \<noteq> Undefined \<and>
   coercer (defaulted sample_realm (unknown :: (unit, unit) Struct)
              (FallbackValue (Obj [(js ''a'', Num 1)])) True) (Obj []) () = (Inr (Obj []), ())"
proof -
  have h: "Obj [] \<noteq> Undefined" by simp
  show ?thesis
    using h defaulted_strict [OF h, of sample_realm "unknown :: (unit, unit) Struct"
            "FallbackValue (Obj [(js ''a'', Num 1)])" "Obj [(js ''a'', Num 1)]"]
    by (simp add: js_def coerce_def is'_def validate_def bind_def return_def lift_def unknown_def
          defaulted_def resolve_def defaulted_coercion_def)
qed

subsection \<open>Claim C7\<close>

text \<open>
  Claim C7, as the specification states it: the coercer of \<^verbatim>\<open>masked(S)\<close> returns the
  input unchanged when the schema of \<open>S\<close> is not a key-value record.  It does not for every
  \<open>S\<close>: the trimmed struct of strings has no such schema, and masked it does not return
  the input \<^verbatim>\<open>"  hi  "\<close> unchanged.
\<close>

theorem masked_counterexample:
  "coercer (masked sample_realm (trimmed (string_struct :: (unit, unit) Struct)))
     (Str (js ''  hi  '')) () \<noteq>
   (Inr (Str (js ''  hi  '')), ())"
  by (simp add: js_def coerce_def is'_def validate_def bind_def return_def lift_def unknown_def
        string_struct_def fail_def trimmed_def trim_def is_white_space_def call_trim_def
        masked_def masked_coercion_def loosely_null_def)

text \<open>
  Claim C7, amended.  The coercer of \<^verbatim>\<open>masked(S)\<close> hands a value to the original
  coercer of \<open>S\<close> and returns its result.  The value handed on is the input itself when the
  schema of \<open>S\<close> is \<^verbatim>\<open>undefined\<close> or \<^verbatim>\<open>null\<close> (the guard of lines 86 and 87 lets every
  other schema through, a key-value record or not), or when the input is not an object.
  Otherwise, when no key of the schema names an accessor that the input or a new object
  inherits (such as \<^verbatim>\<open>__proto__\<close>), it is a new object with exactly the keys that the
  schema declares and the operator \<^verbatim>\<open>in\<close> finds in the input, own or inherited, each
  with the value the input gives for it, one level deep.
\<close>

theorem masked_keys:
  "((\<forall>ks. schema S \<noteq> SchemaObject ks) \<or> \<not> is_object x \<longrightarrow>
      coercer (masked R S) x = coercer S x) \<and>
   (schema S = SchemaObject ks \<and> is_object x \<and>
    (\<forall>k\<in>fst ` set ks. \<not> is_accessor (inherited R x) k \<and>
                        \<not> is_accessor (object_prototype R) k) \<longrightarrow>
      (\<exists>ret. coercer (masked R S) x = coercer S (Obj ret) \<and>
         fst ` set ret = {k \<in> fst ` set ks. has_property R x k = Inr True} \<and>
         (\<forall>k\<in>fst ` set ret. get_property R x k = Inr (prop_get ret k)) \<and>
         distinct (map fst ret)))"
proof (intro conjI impI)
  assume "(\<forall>ks. schema S \<noteq> SchemaObject ks) \<or> \<not> is_object x"
  then have "masked_coercion R (schema S) x = Inr x"
    by (rule masked_coercion_pass)
  then show "coercer (masked R S) x = coercer S x"
    by (simp add: coercer_masked bind_lift_Inr)
next
  assume a: "schema S = SchemaObject ks \<and> is_object x \<and>
    (\<forall>k\<in>fst ` set ks. \<not> is_accessor (inherited R x) k \<and>
                        \<not> is_accessor (object_prototype R) k)"
  then have obj: "is_object x"
    and plain: "\<forall>k\<in>fst ` set ks. \<not> is_accessor (inherited R x) k \<and>
                  \<not> is_accessor (object_prototype R) k"
    by simp_all
  from masked_coercion_object [OF obj plain] obtain ret where
    ret: "masked_coercion R (SchemaObject ks) x = Inr (Obj ret)"
      "fst ` set ret = {k \<in> fst ` set ks. has_property R x k = Inr True}"
      "\<forall>k\<in>fst ` set ret. get_property R x k = Inr (prop_get ret k)"
      "distinct (map fst ret)"
    by blast
  from a ret(1) have "coercer (masked R S) x = coercer S (Obj ret)"
    by (simp add: coercer_masked bind_lift_Inr)
  with ret(2-4) show "\<exists>ret. coercer (masked R S) x = coercer S (Obj ret) \<and>
         fst ` set ret = {k \<in> fst ` set ks. has_property R x k = Inr True} \<and>
         (\<forall>k\<in>fst ` set ret. get_property R x k = Inr (prop_get ret k)) \<and>
         distinct (map fst ret)"
    by blast
qed

text \<open>
  The theorem at a schema that declares \<^verbatim>\<open>x\<close> and \<^verbatim>\<open>y\<close> with the input
  \<^verbatim>\<open>{x: 1, y: 2, z: 3}\<close>, which yields \<^verbatim>\<open>{x: 1, y: 2}\<close>; at the input 42; at a struct
  without a schema; and at a schema that declares \<^verbatim>\<open>constructor\<close> and \<^verbatim>\<open>a\<close> with the
  input \<^verbatim>\<open>{a: 1}\<close>, where the inherited \<^verbatim>\<open>constructor\<close> is copied too.
\<close>

theorem masked_keys_witness:
  "is_object (Obj [(js ''x'', Num 1), (js ''y'', Num 2), (js ''z'', Num 3)]) \<and>
   \<not> is_accessor (object_prototype sample_realm) (js ''x'') \<and>
   \<not> is_accessor (object_prototype sample_realm) (js ''y'') \<and>
   coercer (masked sample_realm ((unknown :: (unit, unit) Struct)
                      \<lparr>schema := SchemaObject [(js ''x'', ()), (js ''y'', ())]\<rparr>))
     (Obj [(js ''x'', Num 1), (js ''y'', Num 2), (js ''z'', Num 3)]) () =
     (Inr (Obj [(js ''x'', Num 1), (js ''y'', Num 2)]), ()) \<and>
   \<not> is_object (Num 42) \<and>
   coercer (masked sample_realm ((unknown :: (unit, unit) Struct)
                      \<lparr>schema := SchemaObject [(js ''x'', ()), (js ''y'', ())]\<rparr>))
     (Num 42) () = (Inr (Num 42), ()) \<and>
   coercer (masked sample_realm (unknown :: (unit, unit) Struct))
     (Obj [(js ''x'', Num 1), (js ''y'', Num 2), (js ''z'', Num 3)]) () =
     (Inr (Obj [(js ''x'', Num 1), (js ''y'', Num 2), (js ''z'', Num 3)]), ()) \<and>
   \<not> is_accessor (object_prototype sample_realm) (js ''constructor'') \<and>
   \<not> is_accessor (object_prototype sample_realm) (js ''a'') \<and>
   coercer (masked sample_realm ((unknown :: (unit, unit) Struct)
                      \<lparr>schema := SchemaObject [(js ''constructor'', ()), (js ''a'', ())]\<rparr>))
     (Obj [(js ''a'', Num 1)]) () =
     (Inr (Obj [(js ''constructor'', builtin ''Object''), (js ''a'', Num 1)]), ())"
  using masked_keys [of "(unknown :: (unit, unit) Struct)
                      \<lparr>schema := SchemaObject [(js ''x'', ()), (js ''y'', ())]\<rparr>"
          "Obj [(js ''x'', Num 1), (js ''y'', Num 2), (js ''z'', Num 3)]" sample_realm
          "[(js ''x'', ()), (js ''y'', ())]"]
    masked_keys [of "(unknown :: (unit, unit) Struct)
                      \<lparr>schema := SchemaObject [(js ''x'', ()), (js ''y'', ())]\<rparr>"
          "Num 42" sample_realm "[(js ''x'', ()), (js ''y'', ())]"]
    masked_keys [of "unknown :: (unit, unit) Struct"
          "Obj [(js ''x'', Num 1), (js ''y'', Num 2), (js ''z'', Num 3)]" sample_realm "[]"]
    masked_keys [of "(unknown :: (unit, unit) Struct)
                      \<lparr>schema := SchemaObject [(js ''constructor'', ()), (js ''a'', ())]\<rparr>"
          "Obj [(js ''a'', Num 1)]" sample_realm
          "[(js ''constructor'', ()), (js ''a'', ())]"]
  by (simp add: js_def coerce_def is'_def validate_def bind_def return_def lift_def unknown_def
        masked_def masked_coercion_def prop_get_def assign_def prop_create_def
        array_index_def decimal_def is_digit_def index_below_def get_property_def
        find_property_def put_def is_accessor_def sample_realm_def builtin_def
        loosely_null_def is_object_def)

subsection \<open>Claim C8\<close>

text \<open>
  Claim C8.  A value that fails validation at the root is reported with the empty path,
  with itself as the value and with the branch that holds it alone: a map struct rejects
  every value that is not an object in this way, for instance the map from strings to
  numbers rejects the string \<^verbatim>\<open>"invalid"\<close>; so does the struct of strings with what
  is not a string, and the struct of numbers with what is not a number.
\<close>

theorem map_root_failure:
  "(typeof v \<noteq> ''object'' \<longrightarrow>
      validate v (map_struct (K :: ('w, 'c) Struct) V) =
        Some \<lparr>path = [], value' = v, type' = map_type K V, branch = [v], reason = None\<rparr>) \<and>
   (typeof v \<noteq> ''string'' \<longrightarrow>
      validate v (string_struct :: ('w, 'c) Struct) =
        Some \<lparr>path = [], value' = v, type' = js ''string'', branch = [v], reason = None\<rparr>) \<and>
   (typeof v \<noteq> ''number'' \<longrightarrow>
      validate v (number_struct :: ('w, 'c) Struct) =
        Some \<lparr>path = [], value' = v, type' = js ''number'', branch = [v], reason = None\<rparr>)"
proof (intro conjI impI)
  assume "typeof v \<noteq> ''object''"
  then show "validate v (map_struct K V) =
      Some \<lparr>path = [], value' = v, type' = map_type K V, branch = [v], reason = None\<rparr>"
    by (cases v) (simp_all add: validate_def map_struct_def fail_def)
next
  assume "typeof v \<noteq> ''string''"
  then show "validate v (string_struct :: ('w, 'c) Struct) =
      Some \<lparr>path = [], value' = v, type' = js ''string'', branch = [v], reason = None\<rparr>"
    by (simp add: validate_def string_struct_def fail_def)
next
  assume "typeof v \<noteq> ''number''"
  then show "validate v (number_struct :: ('w, 'c) Struct) =
      Some \<lparr>path = [], value' = v, type' = js ''number'', branch = [v], reason = None\<rparr>"
    by (simp add: validate_def number_struct_def fail_def)
qed

text \<open>The theorem at the fixture \<^verbatim>\<open>test/fixtures/map/invalid.ts\<close>.\<close>

theorem map_root_failure_witness:
  "typeof (Str (js ''invalid'')) \<noteq> ''object'' \<and>
   validate (Str (js ''invalid''))
     (map_struct (string_struct :: (unit, unit) Struct) (number_struct :: (unit, unit) Struct)) =
     Some \<lparr>path = [], value' = Str (js ''invalid''), type' = js ''Map<string,number>'',
            branch = [Str (js ''invalid'')], reason = None\<rparr> \<and>
   typeof (Str (js ''invalid'')) \<noteq> ''number'' \<and>
   validate (Str (js ''invalid'')) (number_struct :: (unit, unit) Struct) =
     Some \<lparr>path = [], value' = Str (js ''invalid''), type' = js ''number'',
            branch = [Str (js ''invalid'')], reason = None\<rparr> \<and>
   typeof (Num 42) \<noteq> ''string'' \<and>
   validate (Num 42) (string_struct :: (unit, unit) Struct) =
     Some \<lparr>path = [], value' = Num 42, type' = js ''string'', branch = [Num 42],
            reason = None\<rparr>"
  using map_root_failure [of "Str (js ''invalid'')" "string_struct :: (unit, unit) Struct"
          "number_struct :: (unit, unit) Struct"]
    map_root_failure [of "Num 42" "string_struct :: (unit, unit) Struct"
          "number_struct :: (unit, unit) Struct"]
  by (simp add: map_type_def string_struct_def number_struct_def js_def)

subsection \<open>Claim C9\<close>

text \<open>
  Claim C9, as the specification states it: the coercer of \<^verbatim>\<open>trimmed(S)\<close> maps an input
  that is not a string to itself.  It does not for every \<open>S\<close>: with the struct of strings
  defaulted to \<^verbatim>\<open>"d"\<close> as \<open>S\<close>, the input \<^verbatim>\<open>undefined\<close> is not mapped to itself.
\<close>

theorem trimmed_counterexample:
  "coercer (trimmed (defaulted sample_realm (string_struct :: (unit, unit) Struct)
                       (FallbackValue (Str (js ''d''))) False)) Undefined () \<noteq>
   (Inr Undefined, ())"
  by (simp add: js_def coerce_def is'_def validate_def bind_def return_def lift_def unknown_def
        string_struct_def fail_def trimmed_def trim_def is_white_space_def call_trim_def
        defaulted_def resolve_def defaulted_coercion_def)

text \<open>
  Claim C9, amended.  The coercer of \<^verbatim>\<open>trimmed(S)\<close> hands a value to the original
  coercer of \<open>S\<close> and returns its result.  For a string input the value handed on is the
  string without its leading and trailing white space: the input is white space, then the
  trimmed string, then white space, and the trimmed string neither starts nor ends with
  white space.  For an input that is not a string it is the input itself, as the condition
  keeps the transformation away from it.
\<close>

theorem trimmed_strings:
  "coercer (trimmed S) (Str s) = coercer S (Str (trim s)) \<and>
   (\<exists>l r. s = l @ trim s @ r \<and> list_all is_white_space l \<and> list_all is_white_space r) \<and>
   (trim s = [] \<or> \<not> is_white_space (hd (trim s)) \<and> \<not> is_white_space (last (trim s))) \<and>
   ((\<forall>s'. v \<noteq> Str s') \<longrightarrow> coercer (trimmed S) v = coercer S v)"
proof (intro conjI impI)
  show "coercer (trimmed S) (Str s) = coercer S (Str (trim s))"
    by (simp add: coercer_trimmed)
  show "\<exists>l r. s = l @ trim s @ r \<and> list_all is_white_space l \<and> list_all is_white_space r"
    by (rule trim_decompose)
  show "trim s = [] \<or> \<not> is_white_space (hd (trim s)) \<and> \<not> is_white_space (last (trim s))"
    using trim_ends [of s] by blast
next
  assume "\<forall>s'. v \<noteq> Str s'"
  then show "coercer (trimmed S) v = coercer S v"
    by (cases v) (simp_all add: coercer_trimmed)
qed

text \<open>The theorem at \<^verbatim>\<open>"  hi  "\<close>, which becomes \<^verbatim>\<open>"hi"\<close>, and at 42.\<close>

theorem trimmed_strings_witness:
  "coercer (trimmed (string_struct :: (unit, unit) Struct)) (Str (js ''  hi  '')) () =
     (Inr (Str (js ''hi'')), ()) \<and>
   trim (js ''  hi  '') = js ''hi'' \<and>
   coercer (trimmed (string_struct :: (unit, unit) Struct)) (Num 42) () = (Inr (Num 42), ())"
  using trimmed_strings [of "string_struct :: (unit, unit) Struct" "js ''  hi  ''" "Num 42"]
  by (simp add: js_def coerce_def is'_def validate_def bind_def return_def lift_def unknown_def
        string_struct_def fail_def trimmed_def trim_def is_white_space_def call_trim_def)

subsection \<open>Claim C10\<close>

text \<open>
  Claim C10, as the specification states it: for a struct \<open>S\<close> whose schema is a non-null
  object, the coercer of \<^verbatim>\<open>masked(S)\<close> returns for an array a plain object with only
  keys that the schema declares and the array has.  It does not for every \<open>S\<close>: with a
  struct that declares \<^verbatim>\<open>x\<close> and is defaulted to \<^verbatim>\<open>{x: 1}\<close> as \<open>S\<close>, the array
  \<^verbatim>\<open>[5]\<close> comes back as \<^verbatim>\<open>{x: 1}\<close>, and the array has no key \<^verbatim>\<open>x\<close>.
\<close>

theorem masked_array_counterexample:
  "coercer (masked sample_realm
              (defaulted sample_realm ((unknown :: (unit, unit) Struct)
                                         \<lparr>schema := SchemaObject [(js ''x'', ())]\<rparr>)
                 (FallbackValue (Obj [(js ''x'', Num 1)])) False))
     (Arr [Num 5]) () = (Inr (Obj [(js ''x'', Num 1)]), ()) \<and>
   has_property sample_realm (Arr [Num 5]) (js ''x'') \<noteq> Inr True"
  by (simp add: js_def coerce_def is'_def validate_def bind_def return_def lift_def unknown_def
        masked_def masked_coercion_def defaulted_def resolve_def defaulted_coercion_def
        prop_get_def assign_def prop_create_def array_index_def decimal_def is_digit_def
        index_below_def get_property_def find_property_def put_def is_accessor_def
        sample_realm_def builtin_def loosely_null_def)

text \<open>
  Claim C10, amended.  For a struct \<open>S\<close> whose schema is a non-null object, none of whose
  keys names an accessor that an array or a new object inherits (such as
  \<^verbatim>\<open>__proto__\<close>), the coercer of \<^verbatim>\<open>masked(S)\<close> does not hand an array on as it is: an
  array is a non-null object, so the original coercer of \<open>S\<close> gets a plain object, not an
  array, with exactly the keys that the schema declares and the operator \<^verbatim>\<open>in\<close> finds
  in the array (its indices, \<^verbatim>\<open>length\<close>, and the names it inherits from
  \<^verbatim>\<open>Array.prototype\<close> and \<^verbatim>\<open>Object.prototype\<close>), each with the value the array gives
  for it.  The elements at indices that the schema does not declare are not in it.
\<close>

theorem masked_array:
  assumes "schema S = SchemaObject ks"
    and "\<forall>k\<in>fst ` set ks. \<not> is_accessor (inherited R (Arr xs)) k \<and>
                            \<not> is_accessor (object_prototype R) k"
  shows "\<exists>ret. coercer (masked R S) (Arr xs) = coercer S (Obj ret) \<and>
           Obj ret \<noteq> Arr xs \<and>
           fst ` set ret =
             {k \<in> fst ` set ks. k = js ''length'' \<or>
                (\<exists>i. array_index k = Some i \<and> i < length xs) \<or>
                k \<in> fst ` set (array_prototype R) \<or>
                k \<in> fst ` set (object_prototype R)} \<and>
           (\<forall>k\<in>fst ` set ret. get_property R (Arr xs) k = Inr (prop_get ret k)) \<and>
           (\<forall>k. k \<notin> fst ` set ks \<longrightarrow> prop_get ret k = Undefined) \<and>
           distinct (map fst ret)"
proof -
  have obj: "is_object (Arr xs)"
    by (simp add: is_object_def loosely_null_def)
  from masked_coercion_object [OF obj assms(2)] obtain ret where
    ret: "masked_coercion R (SchemaObject ks) (Arr xs) = Inr (Obj ret)"
      "fst ` set ret = {k \<in> fst ` set ks. has_property R (Arr xs) k = Inr True}"
      "\<forall>k\<in>fst ` set ret. get_property R (Arr xs) k = Inr (prop_get ret k)"
      "distinct (map fst ret)"
    by blast
  have found: "(has_property R (Arr xs) k = Inr True) =
      (k = js ''length'' \<or> (\<exists>i. array_index k = Some i \<and> i < length xs) \<or>
       k \<in> fst ` set (array_prototype R) \<or> k \<in> fst ` set (object_prototype R))" for k
  proof -
    have own: "(own_property (Arr xs) k = None) =
        (\<not> (k = js ''length'' \<or> (\<exists>i. array_index k = Some i \<and> i < length xs)))"
      by (auto split: option.splits)
    have inh: "(map_of (inherited R (Arr xs)) k = None) =
        (\<not> (k \<in> fst ` set (array_prototype R) \<or> k \<in> fst ` set (object_prototype R)))"
      by (simp only: inherited.simps map_of_eq_None_iff set_append image_Un Un_iff)
    have "(find_property R (Arr xs) k = None) =
        (own_property (Arr xs) k = None \<and> map_of (inherited R (Arr xs)) k = None)"
      by (cases "own_property (Arr xs) k") (simp_all add: find_property_def)
    then have "(find_property R (Arr xs) k \<noteq> None) =
        (k = js ''length'' \<or> (\<exists>i. array_index k = Some i \<and> i < length xs) \<or>
         k \<in> fst ` set (array_prototype R) \<or> k \<in> fst ` set (object_prototype R))"
      by (simp only: own inh) blast
    then show ?thesis
      by simp
  qed
  from assms(1) ret(1) have "coercer (masked R S) (Arr xs) = coercer S (Obj ret)"
    by (simp add: coercer_masked bind_lift_Inr)
  moreover have "Obj ret \<noteq> Arr xs" by simp
  moreover from ret(2) have keys: "fst ` set ret =
             {k \<in> fst ` set ks. k = js ''length'' \<or>
                (\<exists>i. array_index k = Some i \<and> i < length xs) \<or>
                k \<in> fst ` set (array_prototype R) \<or>
                k \<in> fst ` set (object_prototype R)}"
    by (simp only: found)
  moreover have "\<forall>k. k \<notin> fst ` set ks \<longrightarrow> prop_get ret k = Undefined"
  proof (intro allI impI)
    fix k
    assume "k \<notin> fst ` set ks"
    with ret(2) have "k \<notin> fst ` set ret" by simp
    then have "map_of ret k = None" by (simp add: map_of_eq_None_iff)
    then show "prop_get ret k = Undefined" by (simp add: prop_get_def)
  qed
  ultimately show ?thesis
    using ret(3,4) by blast
qed

text \<open>
  The theorem at a schema that declares \<^verbatim>\<open>0\<close>, \<^verbatim>\<open>length\<close>, \<^verbatim>\<open>map\<close> and \<^verbatim>\<open>x\<close> with
  the array \<^verbatim>\<open>[7, 8]\<close>: the element 8 is lost, and the inherited \<^verbatim>\<open>map\<close> is copied.
\<close>

theorem masked_array_witness:
  "schema ((unknown :: (unit, unit) Struct)
             \<lparr>schema := SchemaObject [(js ''0'', ()), (js ''length'', ()), (js ''map'', ()),
                                      (js ''x'', ())]\<rparr>) =
     SchemaObject [(js ''0'', ()), (js ''length'', ()), (js ''map'', ()), (js ''x'', ())] \<and>
   \<not> is_accessor (inherited sample_realm (Arr [Num 7, Num 8])) (js ''map'') \<and>
   \<not> is_accessor (object_prototype sample_realm) (js ''map'') \<and>
   coercer (masked sample_realm ((unknown :: (unit, unit) Struct)
             \<lparr>schema := SchemaObject [(js ''0'', ()), (js ''length'', ()), (js ''map'', ()),
                                      (js ''x'', ())]\<rparr>))
     (Arr [Num 7, Num 8]) () =
     (Inr (Obj [(js ''0'', Num 7), (js ''length'', Num 2), (js ''map'', builtin ''map'')]),
      ())"
proof -
  have h: "schema ((unknown :: (unit, unit) Struct)
             \<lparr>schema := SchemaObject [(js ''0'', ()), (js ''length'', ()), (js ''map'', ()),
                                      (js ''x'', ())]\<rparr>) =
     SchemaObject [(js ''0'', ()), (js ''length'', ()), (js ''map'', ()), (js ''x'', ())]"
    by simp
  have a: "\<forall>k\<in>fst ` set [(js ''0'', ()), (js ''length'', ()), (js ''map'', ()), (js ''x'', ())].
      \<not> is_accessor (inherited sample_realm (Arr [Num 7, Num 8])) k \<and>
      \<not> is_accessor (object_prototype sample_realm) k"
    by (simp add: is_accessor_def sample_realm_def js_def)
  show ?thesis
    using h a masked_array [OF h a]
    by (simp add: js_def coerce_def is'_def validate_def bind_def return_def lift_def unknown_def
          masked_def masked_coercion_def prop_get_def assign_def prop_create_def
          array_index_def decimal_def is_digit_def index_below_def get_property_def
          find_property_def put_def is_accessor_def sample_realm_def builtin_def
          loosely_null_def)
qed

end
